theory Spec2Isabelle
  imports Complex_Main "HOL-Library.Char_ord" "HOL-Library.List_Lexorder"
begin

section \<open>Values exchanged with the model and the tool handlers\<close>

text \<open>
  The tool arguments and the tool results are JSON values: what \<^verbatim>\<open>json.loads\<close>
  produces and what \<^verbatim>\<open>json.dumps\<close> accepts. A Python \<^verbatim>\<open>dict\<close> is kept as the list
  of its items in insertion order (its keys are distinct; \<open>map_of\<close> reads it), an
  \<^verbatim>\<open>int\<close> is unbounded, and a finite \<^verbatim>\<open>float\<close> is kept as the rational number it
  denotes (NaN, the infinities and the sign of zero are outside the model; no arithmetic
  on floats is modelled). Strings are Python strings over the code points 0..255.
\<close>

datatype json =
    JNull
  | JBool bool
  | JInt int
  | JFloat rat
  | JStr string
  | JArr "json list"
  | JObj "(string \<times> json) list"

text \<open>The exceptions that leave \<^verbatim>\<open>execute_tool\<close> or \<^verbatim>\<open>MapAgent.chat\<close> uncaught.\<close>

datatype exn =
    KeyError string        \<comment> \<open>\<^verbatim>\<open>arguments[k]\<close> on a dict without the key \<open>k\<close>\<close>
  | TypeError              \<comment> \<open>\<^verbatim>\<open>arguments[k]\<close> on a value that is not a dict\<close>
  | AttributeError         \<comment> \<open>\<^verbatim>\<open>.get\<close> or \<^verbatim>\<open>.lower\<close> on a value that has no such method\<close>
  | JSONDecodeError        \<comment> \<open>\<^verbatim>\<open>json.loads\<close> on a payload that is not JSON\<close>
  | OSError                \<comment> \<open>\<^verbatim>\<open>open("agent_prompt.txt")\<close> fails\<close>
  | EndpointError string   \<comment> \<open>the completion call raises (network, authentication, quota)\<close>

text \<open>
  Every \<^verbatim>\<open>return\<close> of every handler is a dict literal that starts with the key
  \<^verbatim>\<open>"success"\<close>: \<^verbatim>\<open>{"success": True, ...fields}\<close> or
  \<^verbatim>\<open>{"success": False, "error": message}\<close>.
\<close>

datatype envelope =
    Success "(string \<times> json) list"
  | Failure string

fun envelope_json :: "envelope \<Rightarrow> json" where
  "envelope_json (Success fields) = JObj ((''success'', JBool True) # fields)"
| "envelope_json (Failure message) =
     JObj [(''success'', JBool False), (''error'', JStr message)]"

text \<open>Python's truth value of a JSON value (\<^verbatim>\<open>if start_date:\<close>, \<^verbatim>\<open>x or y\<close>).\<close>

fun truthy :: "json \<Rightarrow> bool" where
  "truthy JNull = False"
| "truthy (JBool b) = b"
| "truthy (JInt n) = (n \<noteq> 0)"
| "truthy (JFloat r) = (r \<noteq> 0)"
| "truthy (JStr s) = (s \<noteq> [])"
| "truthy (JArr xs) = (xs \<noteq> [])"
| "truthy (JObj kvs) = (kvs \<noteq> [])"

text \<open>The type name Python prints in the message of a failed comparison.\<close>

fun type_name :: "json \<Rightarrow> string" where
  "type_name JNull = ''NoneType''"
| "type_name (JBool b) = ''bool''"
| "type_name (JInt n) = ''int''"
| "type_name (JFloat r) = ''float''"
| "type_name (JStr s) = ''str''"
| "type_name (JArr xs) = ''list''"
| "type_name (JObj kvs) = ''dict''"

text \<open>
  \<^verbatim>\<open>str(e)\<close> of the \<^verbatim>\<open>TypeError\<close> raised by \<^verbatim>\<open>a >= b\<close> or \<^verbatim>\<open>a <= b\<close> when the
  operand types do not compare.
\<close>

definition not_supported :: "string \<Rightarrow> string \<Rightarrow> json \<Rightarrow> string" where
  "not_supported opr left right =
     [CHR 0x27] @ opr @ [CHR 0x27] @ '' not supported between instances of ''
     @ [CHR 0x27] @ left @ [CHR 0x27] @ '' and '' @ [CHR 0x27] @ type_name right @ [CHR 0x27]"

text \<open>\<^verbatim>\<open>str.lower\<close> on the code points 0..255: A-Z and the Latin-1 capitals move by 32.\<close>

definition lower_char :: "char \<Rightarrow> char" where
  "lower_char c =
     (let n = (of_char c :: nat)
      in if (65 \<le> n \<and> n \<le> 90) \<or> (192 \<le> n \<and> n \<le> 222 \<and> n \<noteq> 215)
         then char_of (n + 32) else c)"

definition lower :: "string \<Rightarrow> string" where
  "lower s = map lower_char s"


section \<open>The tool catalog (\<^verbatim>\<open>TOOLS\<close> of agent\_tools.py)\<close>

text \<open>
  One entry of \<^verbatim>\<open>TOOLS\<close>, without its free-text descriptions: the tool name, the
  properties of its parameter schema (JSON type, \<^verbatim>\<open>default\<close> and \<^verbatim>\<open>enum\<close> where the
  schema declares them) and the list of required parameter names.
\<close>

record param =
  p_name :: string
  p_type :: string
  p_default :: "json option"
  p_enum :: "string list option"

record tool =
  t_name :: string
  t_properties :: "param list"
  t_required :: "string list"

definition plain_param :: "string \<Rightarrow> string \<Rightarrow> param" where
  "plain_param n ty = \<lparr>p_name = n, p_type = ty, p_default = None, p_enum = None\<rparr>"

definition default_param :: "string \<Rightarrow> string \<Rightarrow> json \<Rightarrow> param" where
  "default_param n ty d = \<lparr>p_name = n, p_type = ty, p_default = Some d, p_enum = None\<rparr>"

definition TOOLS :: "tool list" where
  "TOOLS =
   [ \<lparr>t_name = ''geocode'',
      t_properties = [plain_param ''query'' ''string''],
      t_required = [''query'']\<rparr>,
     \<lparr>t_name = ''reverse_geocode'',
      t_properties = [plain_param ''latitude'' ''number'', plain_param ''longitude'' ''number''],
      t_required = [''latitude'', ''longitude'']\<rparr>,
     \<lparr>t_name = ''search_poi'',
      t_properties =
        [plain_param ''latitude'' ''number'', plain_param ''longitude'' ''number'',
         default_param ''radius'' ''integer'' (JInt 1000),
         default_param ''category'' ''string'' (JStr ''amenity''),
         default_param ''key'' ''string'' JNull],
      t_required = [''latitude'', ''longitude'']\<rparr>,
     \<lparr>t_name = ''get_place_details'',
      t_properties = [plain_param ''place_id'' ''string''],
      t_required = [''place_id'']\<rparr>,
     \<lparr>t_name = ''get_route'',
      t_properties =
        [plain_param ''origin_lat'' ''number'', plain_param ''origin_lon'' ''number'',
         plain_param ''dest_lat'' ''number'', plain_param ''dest_lon'' ''number'',
         \<lparr>p_name = ''mode'', p_type = ''string'', p_default = Some (JStr ''driving''),
          p_enum = Some [''driving'', ''walking'', ''cycling'']\<rparr>],
      t_required = [''origin_lat'', ''origin_lon'', ''dest_lat'', ''dest_lon'']\<rparr>,
     \<lparr>t_name = ''get_frequent_places'',
      t_properties =
        [plain_param ''start_date'' ''string'', plain_param ''end_date'' ''string'',
         default_param ''min_visits'' ''integer'' (JInt 3)],
      t_required = []\<rparr>,
     \<lparr>t_name = ''summarize_travel_stats'',
      t_properties = [plain_param ''start_date'' ''string'', plain_param ''end_date'' ''string''],
      t_required = []\<rparr>,
     \<lparr>t_name = ''get_typical_route'',
      t_properties =
        [plain_param ''origin_label'' ''string'', plain_param ''destination_label'' ''string'',
         plain_param ''time_of_day'' ''integer''],
      t_required = [''origin_label'', ''destination_label'']\<rparr>,
     \<lparr>t_name = ''get_current_weather'',
      t_properties =
        [plain_param ''latitude'' ''number'', plain_param ''longitude'' ''number'',
         default_param ''include_forecast'' ''boolean'' (JBool False)],
      t_required = [''latitude'', ''longitude'']\<rparr>,
     \<lparr>t_name = ''get_air_quality'',
      t_properties = [plain_param ''latitude'' ''number'', plain_param ''longitude'' ''number''],
      t_required = [''latitude'', ''longitude'']\<rparr>,
     \<lparr>t_name = ''get_astronomy_data'',
      t_properties =
        [plain_param ''latitude'' ''number'', plain_param ''longitude'' ''number'',
         plain_param ''date'' ''string''],
      t_required = [''latitude'', ''longitude'']\<rparr> ]"

definition tool_names :: "string list" where
  "tool_names = map t_name TOOLS"

definition lookup_tool :: "string \<Rightarrow> tool option" where
  "lookup_tool name = find (\<lambda>t. t_name t = name) TOOLS"

definition lookup_param :: "string \<Rightarrow> string \<Rightarrow> param option" where
  "lookup_param name p =
     (case lookup_tool name of
        None \<Rightarrow> None
      | Some t \<Rightarrow> find (\<lambda>q. p_name q = p) (t_properties t))"


section \<open>The backend servers\<close>

text \<open>
  One entry of \<^verbatim>\<open>data/trip_history.json\<close>, as the history server reads it: a trip
  has a date (\<^verbatim>\<open>YYYY-MM-DD\<close>), two places, and the figures the statistics use.
\<close>

record place =
  lat :: json
  lon :: json
  label :: string

record trip =
  date :: string
  origin :: place
  destination :: place
  distance_km :: rat
  duration_minutes :: rat
  mode :: string
  hour :: int

text \<open>
  The three module-level server objects of agent\_tools.py. What a handler does inside
  its \<^verbatim>\<open>try\<close> block with the network (the HTTP request, the decoding of the response
  and the extraction of fields, with the \<^verbatim>\<open>except Exception\<close> clause that turns every
  fault into a failure envelope) is a field here: a function from the handler's arguments
  to the envelope that the \<^verbatim>\<open>try\<close> statement returns. The same holds for the
  floating-point statistics of the history server. \<open>format_number\<close> is the text an
  f-string prints for a coordinate.
\<close>

record servers =
  geocode_try :: "json \<Rightarrow> envelope"
  reverse_geocode_try :: "json \<Rightarrow> json \<Rightarrow> envelope"
  search_poi_try :: "json \<Rightarrow> json \<Rightarrow> json \<Rightarrow> json \<Rightarrow> json \<Rightarrow> envelope"
  get_place_details_try :: "json \<Rightarrow> envelope"
  get_route_try :: "string \<Rightarrow> json \<Rightarrow> json \<Rightarrow> json \<Rightarrow> json \<Rightarrow> string \<Rightarrow> envelope"
  trip_data :: "trip list"
  format_number :: "json \<Rightarrow> string"
  travel_summary :: "json \<Rightarrow> json \<Rightarrow> trip list \<Rightarrow> envelope"
  get_typical_route_try :: "json \<Rightarrow> json \<Rightarrow> json \<Rightarrow> envelope"
  get_current_weather_try :: "json \<Rightarrow> json \<Rightarrow> json \<Rightarrow> envelope"
  get_air_quality_try :: "json \<Rightarrow> json \<Rightarrow> envelope"
  get_astronomy_data_try :: "json \<Rightarrow> json \<Rightarrow> json \<Rightarrow> envelope"

subsection \<open>core\_map\_server.py\<close>

text \<open>
  \<^verbatim>\<open>geocode\<close>, \<^verbatim>\<open>reverse_geocode\<close>, \<^verbatim>\<open>search_poi\<close> and \<^verbatim>\<open>get_place_details\<close> sleep
  for the rate limit and then run their \<^verbatim>\<open>try\<close> statement.
\<close>

definition geocode :: "servers \<Rightarrow> json \<Rightarrow> envelope" where
  "geocode sv query = geocode_try sv query"

definition reverse_geocode :: "servers \<Rightarrow> json \<Rightarrow> json \<Rightarrow> envelope" where
  "reverse_geocode sv latitude longitude = reverse_geocode_try sv latitude longitude"

definition search_poi :: "servers \<Rightarrow> json \<Rightarrow> json \<Rightarrow> json \<Rightarrow> json \<Rightarrow> json \<Rightarrow> envelope" where
  "search_poi sv latitude longitude radius category key =
     search_poi_try sv latitude longitude radius category key"

definition get_place_details :: "servers \<Rightarrow> json \<Rightarrow> envelope" where
  "get_place_details sv place_id = get_place_details_try sv place_id"

text \<open>
  \<^verbatim>\<open>get_route\<close> chooses the OSRM profile before its \<^verbatim>\<open>try\<close> statement:
  \<^verbatim>\<open>profile = mode_map.get(mode.lower(), "car")\<close>. A \<^verbatim>\<open>mode\<close> that is not a string has
  no \<^verbatim>\<open>lower\<close>, and the \<^verbatim>\<open>AttributeError\<close> is raised outside the \<^verbatim>\<open>try\<close>.
\<close>

definition mode_map :: "(string \<times> string) list" where
  "mode_map =
     [(''driving'', ''car''), (''walking'', ''foot''), (''cycling'', ''bike''),
      (''car'', ''car''), (''foot'', ''foot''), (''bike'', ''bike'')]"

definition profile :: "string \<Rightarrow> string" where
  "profile m = (case map_of mode_map (lower m) of Some p \<Rightarrow> p | None \<Rightarrow> ''car'')"

definition get_route ::
  "servers \<Rightarrow> json \<Rightarrow> json \<Rightarrow> json \<Rightarrow> json \<Rightarrow> json \<Rightarrow> exn + envelope" where
  "get_route sv origin_lat origin_lon dest_lat dest_lon md =
     (case md of
        JStr m \<Rightarrow> Inr (get_route_try sv (profile m) origin_lat origin_lon dest_lat dest_lon m)
      | _ \<Rightarrow> Inl AttributeError)"

subsection \<open>weather\_map\_server.py\<close>

definition get_current_weather :: "servers \<Rightarrow> json \<Rightarrow> json \<Rightarrow> json \<Rightarrow> envelope" where
  "get_current_weather sv latitude longitude include_forecast =
     get_current_weather_try sv latitude longitude include_forecast"

definition get_air_quality :: "servers \<Rightarrow> json \<Rightarrow> json \<Rightarrow> envelope" where
  "get_air_quality sv latitude longitude = get_air_quality_try sv latitude longitude"

definition get_astronomy_data :: "servers \<Rightarrow> json \<Rightarrow> json \<Rightarrow> json \<Rightarrow> envelope" where
  "get_astronomy_data sv latitude longitude dt = get_astronomy_data_try sv latitude longitude dt"

subsection \<open>history\_map\_server.py\<close>

text \<open>
  The date filter, written twice in the source (in \<^verbatim>\<open>get_frequent_places\<close> and in
  \<^verbatim>\<open>summarize_travel_stats\<close>):
  \<^verbatim>\<open>[t for t in filtered_trips if t["date"] >= start_date]\<close> when \<^verbatim>\<open>start_date\<close> is
  truthy, then the same with \<^verbatim>\<open><= end_date\<close>. A bound that is not a string makes the
  first comparison raise \<^verbatim>\<open>TypeError\<close>; the result \<open>Inl\<close> carries \<^verbatim>\<open>str(e)\<close> for the
  \<^verbatim>\<open>except\<close> clause. Strings compare by code point, lexicographically.
\<close>

definition keep_from :: "json \<Rightarrow> trip list \<Rightarrow> string + trip list" where
  "keep_from start_date ts =
     (case start_date of
        JStr s \<Rightarrow> Inr (filter (\<lambda>t. date t \<ge> s) ts)
      | _ \<Rightarrow> if ts = [] then Inr [] else Inl (not_supported ''>='' ''str'' start_date))"

definition keep_until :: "json \<Rightarrow> trip list \<Rightarrow> string + trip list" where
  "keep_until end_date ts =
     (case end_date of
        JStr s \<Rightarrow> Inr (filter (\<lambda>t. date t \<le> s) ts)
      | _ \<Rightarrow> if ts = [] then Inr [] else Inl (not_supported ''<='' ''str'' end_date))"

definition filtered_trips :: "servers \<Rightarrow> json \<Rightarrow> json \<Rightarrow> string + trip list" where
  "filtered_trips sv start_date end_date =
     (case (if truthy start_date then keep_from start_date (trip_data sv)
            else Inr (trip_data sv)) of
        Inl msg \<Rightarrow> Inl msg
      | Inr ts \<Rightarrow> if truthy end_date then keep_until end_date ts else Inr ts)"

text \<open>
  \<^verbatim>\<open>place_visits\<close> is a \<^verbatim>\<open>defaultdict\<close>; its items are kept in insertion order. One
  visit of a place creates the entry if the key is new, adds one to \<^verbatim>\<open>count\<close> and
  overwrites \<^verbatim>\<open>coords\<close> and \<^verbatim>\<open>label\<close> (the \<^verbatim>\<open>None\<close> placeholders of a fresh entry
  never outlive the iteration that created it).
\<close>

record visits =
  v_count :: int
  v_coords :: "json \<times> json"
  v_label :: string

definition place_key :: "servers \<Rightarrow> place \<Rightarrow> string" where
  "place_key sv p = format_number sv (lat p) @ '','' @ format_number sv (lon p)"

fun visit :: "string \<Rightarrow> place \<Rightarrow> (string \<times> visits) list \<Rightarrow> (string \<times> visits) list" where
  "visit k p [] = [(k, \<lparr>v_count = 1, v_coords = (lat p, lon p), v_label = label p\<rparr>)]"
| "visit k p ((k', v) # rest) =
     (if k' = k
      then (k', \<lparr>v_count = v_count v + 1, v_coords = (lat p, lon p), v_label = label p\<rparr>) # rest
      else (k', v) # visit k p rest)"

definition count_trip :: "servers \<Rightarrow> (string \<times> visits) list \<Rightarrow> trip \<Rightarrow> (string \<times> visits) list" where
  "count_trip sv pv t =
     visit (place_key sv (destination t)) (destination t)
       (visit (place_key sv (origin t)) (origin t) pv)"

definition place_visits :: "servers \<Rightarrow> trip list \<Rightarrow> (string \<times> visits) list" where
  "place_visits sv ts = foldl (count_trip sv) [] ts"

text \<open>
  \<^verbatim>\<open>data["count"] >= min_visits\<close>: an \<^verbatim>\<open>int\<close> compares with an \<^verbatim>\<open>int\<close>, a \<^verbatim>\<open>bool\<close>
  (\<^verbatim>\<open>True\<close> is 1) and a \<^verbatim>\<open>float\<close>, by value; with anything else it raises.
\<close>

fun count_ge :: "int \<Rightarrow> json \<Rightarrow> string + bool" where
  "count_ge c (JInt n) = Inr (c \<ge> n)"
| "count_ge c (JBool b) = Inr (c \<ge> (if b then 1 else 0))"
| "count_ge c (JFloat r) = Inr (of_int c \<ge> r)"
| "count_ge c other = Inl (not_supported ''>='' ''int'' other)"

record frequent_place =
  fp_label :: string
  latitude :: json
  longitude :: json
  visit_count :: int

definition frequent_place_of :: "visits \<Rightarrow> frequent_place" where
  "frequent_place_of v =
     \<lparr>fp_label = v_label v, latitude = fst (v_coords v), longitude = snd (v_coords v),
      visit_count = v_count v\<rparr>"

definition frequent_place_json :: "frequent_place \<Rightarrow> json" where
  "frequent_place_json p =
     JObj [(''label'', JStr (fp_label p)), (''latitude'', latitude p),
           (''longitude'', longitude p), (''visit_count'', JInt (visit_count p))]"

text \<open>The comprehension \<^verbatim>\<open>[{...} for data in place_visits.values() if data["count"] >= min_visits]\<close>.\<close>

fun select_frequent :: "json \<Rightarrow> visits list \<Rightarrow> string + frequent_place list" where
  "select_frequent min_visits [] = Inr []"
| "select_frequent min_visits (v # vs) =
     (case count_ge (v_count v) min_visits of
        Inl msg \<Rightarrow> Inl msg
      | Inr keep \<Rightarrow>
          (case select_frequent min_visits vs of
             Inl msg \<Rightarrow> Inl msg
           | Inr ps \<Rightarrow> Inr (if keep then frequent_place_of v # ps else ps)))"

text \<open>
  \<^verbatim>\<open>start_date or filtered_trips[-1]["date"] if filtered_trips else None\<close> parses as
  \<^verbatim>\<open>(start_date or ...) if filtered_trips else None\<close>.
\<close>

definition window_start :: "json \<Rightarrow> trip list \<Rightarrow> json" where
  "window_start start_date ts =
     (if ts \<noteq> [] then (if truthy start_date then start_date else JStr (date (last ts)))
      else JNull)"

definition window_end :: "json \<Rightarrow> trip list \<Rightarrow> json" where
  "window_end end_date ts =
     (if ts \<noteq> [] then (if truthy end_date then end_date else JStr (date (hd ts)))
      else JNull)"

text \<open>\<^verbatim>\<open>frequent_places.sort(key=..., reverse=True)\<close>: stable, largest count first.\<close>

definition sort_by_visits :: "frequent_place list \<Rightarrow> frequent_place list" where
  "sort_by_visits ps = sort_key (\<lambda>p. - visit_count p) ps"

definition get_frequent_places :: "servers \<Rightarrow> json \<Rightarrow> json \<Rightarrow> json \<Rightarrow> envelope" where
  "get_frequent_places sv start_date end_date min_visits =
     (case filtered_trips sv start_date end_date of
        Inl msg \<Rightarrow> Failure (''Error getting frequent places: '' @ msg)
      | Inr ts \<Rightarrow>
          (case select_frequent min_visits (map snd (place_visits sv ts)) of
             Inl msg \<Rightarrow> Failure (''Error getting frequent places: '' @ msg)
           | Inr ps \<Rightarrow>
               (let frequent_places = sort_by_visits ps
                in Success
                     [(''time_window'',
                         JObj [(''start_date'', window_start start_date ts),
                               (''end_date'', window_end end_date ts)]),
                      (''total_places'', JInt (int (length frequent_places))),
                      (''places'', JArr (map frequent_place_json frequent_places))])))"

text \<open>
  \<^verbatim>\<open>summarize_travel_stats\<close>: the same filter, the explicit failure on an empty window,
  and then the statistics (\<open>travel_summary\<close>, floating-point sums and roundings).
\<close>

definition summarize_travel_stats :: "servers \<Rightarrow> json \<Rightarrow> json \<Rightarrow> envelope" where
  "summarize_travel_stats sv start_date end_date =
     (case filtered_trips sv start_date end_date of
        Inl msg \<Rightarrow> Failure (''Error summarizing travel stats: '' @ msg)
      | Inr ts \<Rightarrow>
          if ts = [] then Failure ''No trips found in specified time window''
          else travel_summary sv start_date end_date ts)"

definition get_typical_route :: "servers \<Rightarrow> json \<Rightarrow> json \<Rightarrow> json \<Rightarrow> envelope" where
  "get_typical_route sv origin_label destination_label time_of_day =
     get_typical_route_try sv origin_label destination_label time_of_day"


section \<open>The dispatcher (\<^verbatim>\<open>execute_tool\<close> of agent\_tools.py)\<close>

text \<open>
  \<^verbatim>\<open>arguments[k]\<close>, \<^verbatim>\<open>arguments.get(k, d)\<close> and \<^verbatim>\<open>arguments.get(k)\<close> on whatever
  \<^verbatim>\<open>json.loads\<close> returned: only a dict has keys and a \<^verbatim>\<open>get\<close> method.
\<close>

fun subscript :: "json \<Rightarrow> string \<Rightarrow> exn + json" where
  "subscript (JObj kvs) k = (case map_of kvs k of Some v \<Rightarrow> Inr v | None \<Rightarrow> Inl (KeyError k))"
| "subscript other k = Inl TypeError"

fun get_or :: "json \<Rightarrow> string \<Rightarrow> json \<Rightarrow> exn + json" where
  "get_or (JObj kvs) k d = Inr (case map_of kvs k of Some v \<Rightarrow> v | None \<Rightarrow> d)"
| "get_or other k d = Inl AttributeError"

definition get :: "json \<Rightarrow> string \<Rightarrow> exn + json" where
  "get arguments k = get_or arguments k JNull"

text \<open>
  The arguments of a call are evaluated left to right; the first one that raises ends
  the call, and the handler is not invoked.
\<close>

definition and_then :: "exn + 'a \<Rightarrow> ('a \<Rightarrow> exn + 'b) \<Rightarrow> exn + 'b" where
  "and_then r f = (case r of Inl e \<Rightarrow> Inl e | Inr v \<Rightarrow> f v)"

definition execute_tool :: "servers \<Rightarrow> string \<Rightarrow> json \<Rightarrow> exn + envelope" where
  "execute_tool sv tool_name arguments =
     (if tool_name = ''geocode'' then
        and_then (subscript arguments ''query'') (\<lambda>query.
        Inr (geocode sv query))
      else if tool_name = ''reverse_geocode'' then
        and_then (subscript arguments ''latitude'') (\<lambda>la.
        and_then (subscript arguments ''longitude'') (\<lambda>lo.
        Inr (reverse_geocode sv la lo)))
      else if tool_name = ''search_poi'' then
        and_then (subscript arguments ''latitude'') (\<lambda>la.
        and_then (subscript arguments ''longitude'') (\<lambda>lo.
        and_then (get_or arguments ''radius'' (JInt 1000)) (\<lambda>radius.
        and_then (get_or arguments ''category'' (JStr ''amenity'')) (\<lambda>category.
        and_then (get_or arguments ''key'' JNull) (\<lambda>key.
        Inr (search_poi sv la lo radius category key))))))
      else if tool_name = ''get_place_details'' then
        and_then (subscript arguments ''place_id'') (\<lambda>place_id.
        Inr (get_place_details sv place_id))
      else if tool_name = ''get_route'' then
        and_then (subscript arguments ''origin_lat'') (\<lambda>origin_lat.
        and_then (subscript arguments ''origin_lon'') (\<lambda>origin_lon.
        and_then (subscript arguments ''dest_lat'') (\<lambda>dest_lat.
        and_then (subscript arguments ''dest_lon'') (\<lambda>dest_lon.
        and_then (get_or arguments ''mode'' (JStr ''driving'')) (\<lambda>md.
        get_route sv origin_lat origin_lon dest_lat dest_lon md)))))
      else if tool_name = ''get_frequent_places'' then
        and_then (get arguments ''start_date'') (\<lambda>start_date.
        and_then (get arguments ''end_date'') (\<lambda>end_date.
        and_then (get_or arguments ''min_visits'' (JInt 3)) (\<lambda>min_visits.
        Inr (get_frequent_places sv start_date end_date min_visits))))
      else if tool_name = ''summarize_travel_stats'' then
        and_then (get arguments ''start_date'') (\<lambda>start_date.
        and_then (get arguments ''end_date'') (\<lambda>end_date.
        Inr (summarize_travel_stats sv start_date end_date)))
      else if tool_name = ''get_typical_route'' then
        and_then (subscript arguments ''origin_label'') (\<lambda>origin_label.
        and_then (subscript arguments ''destination_label'') (\<lambda>destination_label.
        and_then (get arguments ''time_of_day'') (\<lambda>time_of_day.
        Inr (get_typical_route sv origin_label destination_label time_of_day))))
      else if tool_name = ''get_current_weather'' then
        and_then (subscript arguments ''latitude'') (\<lambda>la.
        and_then (subscript arguments ''longitude'') (\<lambda>lo.
        and_then (get_or arguments ''include_forecast'' (JBool False)) (\<lambda>include_forecast.
        Inr (get_current_weather sv la lo include_forecast))))
      else if tool_name = ''get_air_quality'' then
        and_then (subscript arguments ''latitude'') (\<lambda>la.
        and_then (subscript arguments ''longitude'') (\<lambda>lo.
        Inr (get_air_quality sv la lo)))
      else if tool_name = ''get_astronomy_data'' then
        and_then (subscript arguments ''latitude'') (\<lambda>la.
        and_then (subscript arguments ''longitude'') (\<lambda>lo.
        and_then (get arguments ''date'') (\<lambda>dt.
        Inr (get_astronomy_data sv la lo dt))))
      else Inr (Failure (''Unknown tool: '' @ tool_name)))"


section \<open>The agent (agent.py)\<close>

text \<open>
  A tool request of the model (\<^verbatim>\<open>tc.id\<close>, \<^verbatim>\<open>tc.function.name\<close>,
  \<^verbatim>\<open>tc.function.arguments\<close>, the last one still a string) and the message of a reply
  (\<^verbatim>\<open>response.choices[0].message\<close>; \<^verbatim>\<open>tool_calls\<close> is \<^verbatim>\<open>None\<close> or a list, and
  the loop tests only its truth value, so \<open>[]\<close> stands for both).
\<close>

record tool_call =
  tc_id :: string
  tc_name :: string
  tc_arguments :: string

record reply =
  content :: "string option"
  tool_calls :: "tool_call list"

text \<open>
  The dicts of \<^verbatim>\<open>conversation_history\<close> and of \<^verbatim>\<open>messages\<close>, by role and keys:
  system and user content, the assistant message that carries tool calls, the final
  assistant message, and the tool message (\<^verbatim>\<open>tool_call_id\<close>, \<^verbatim>\<open>content\<close>).
\<close>

datatype message =
    SystemMessage string
  | UserMessage string
  | AssistantToolCalls "string option" "tool_call list"
  | AssistantMessage string
  | ToolMessage string string

text \<open>The keyword arguments of one \<^verbatim>\<open>chat.completions.create\<close> call.\<close>

record request =
  req_model :: "string option"
  req_messages :: "message list"
  req_tools :: "tool list"
  req_tool_choice :: string

text \<open>
  The fields of \<^verbatim>\<open>MapAgent\<close>: the client (its API key), the model name (both read
  from the environment, so possibly \<^verbatim>\<open>None\<close>), the history and the verbose flag.
\<close>

record agent =
  client :: "string option"
  model :: "string option"
  conversation_history :: "message list"
  verbose :: bool

text \<open>
  What the agent takes from outside: the content of \<^verbatim>\<open>agent_prompt.txt\<close> (\<open>None\<close>
  when it cannot be read), the completion endpoint as a function of the client and the
  request (it raises or returns \<^verbatim>\<open>choices[0].message\<close>), \<^verbatim>\<open>json.loads\<close> (\<open>None\<close>
  when the text is not JSON), \<^verbatim>\<open>json.dumps\<close>, and the servers. The model is not
  deterministic; since every request of a conversation has a longer \<^verbatim>\<open>messages\<close> list
  than the one before, a function of the request can play any sequence of replies.
  Printing in verbose mode changes no state and is left out.
\<close>

record runtime =
  agent_prompt :: "string option"
  create :: "string option \<Rightarrow> request \<Rightarrow> exn + reply"
  json_loads :: "string \<Rightarrow> json option"
  json_dumps :: "json \<Rightarrow> string"
  the_servers :: servers

definition get_system_prompt :: "runtime \<Rightarrow> exn + string" where
  "get_system_prompt rt = (case agent_prompt rt of None \<Rightarrow> Inl OSError | Some p \<Rightarrow> Inr p)"

definition append_turn :: "agent \<Rightarrow> message \<Rightarrow> agent" where
  "append_turn a m = a\<lparr>conversation_history := conversation_history a @ [m]\<rparr>"

text \<open>
  One model round-trip: build \<^verbatim>\<open>messages\<close>, call the endpoint. The second component
  of the state is the list of the requests submitted so far, kept to say what the model
  was sent and how often; the source has no such variable.
\<close>

definition messages :: "string \<Rightarrow> agent \<Rightarrow> message list" where
  "messages prompt a = SystemMessage prompt # conversation_history a"

definition submit :: "runtime \<Rightarrow> agent \<Rightarrow> request list \<Rightarrow> request list \<times> (exn + reply)" where
  "submit rt a sent =
     (case get_system_prompt rt of
        Inl e \<Rightarrow> (sent, Inl e)
      | Inr prompt \<Rightarrow>
          (let rq = \<lparr>req_model = model a, req_messages = messages prompt a,
                     req_tools = TOOLS, req_tool_choice = ''auto''\<rparr>
           in (sent @ [rq], create rt (client a) rq)))"

text \<open>
  The \<^verbatim>\<open>for tool_call in response_message.tool_calls\<close> loop. An exception leaves the
  loop at once; the turns appended before it stay in the history, which is mutated in
  place.
\<close>

definition tool_turn :: "runtime \<Rightarrow> tool_call \<Rightarrow> envelope \<Rightarrow> message" where
  "tool_turn rt tc function_response =
     ToolMessage (tc_id tc) (json_dumps rt (envelope_json function_response))"

fun run_tool_calls :: "runtime \<Rightarrow> agent \<Rightarrow> tool_call list \<Rightarrow> agent \<times> (exn + unit)" where
  "run_tool_calls rt a [] = (a, Inr ())"
| "run_tool_calls rt a (tc # tcs) =
     (case json_loads rt (tc_arguments tc) of
        None \<Rightarrow> (a, Inl JSONDecodeError)
      | Some function_args \<Rightarrow>
          (case execute_tool (the_servers rt) (tc_name tc) function_args of
             Inl e \<Rightarrow> (a, Inl e)
           | Inr function_response \<Rightarrow>
               run_tool_calls rt (append_turn a (tool_turn rt tc function_response)) tcs))"

definition fallback :: string where
  "fallback = ''I apologize, but I couldn'' @ [CHR 0x27] @ ''t generate a response.''"

definition final_text :: "reply \<Rightarrow> string" where
  "final_text r = (case content r of None \<Rightarrow> fallback | Some c \<Rightarrow> if c = [] then fallback else c)"

text \<open>
  The \<^verbatim>\<open>while response_message.tool_calls\<close> loop and the lines after it. The loop
  has no bound on its rounds: \<open>None\<close> is the run that never returns.
\<close>

partial_function (option) chat_loop ::
  "runtime \<Rightarrow> agent \<Rightarrow> request list \<Rightarrow> reply \<Rightarrow> (agent \<times> request list \<times> (exn + string)) option"
where
  "chat_loop rt a sent response_message =
     (if tool_calls response_message \<noteq> [] then
        (case run_tool_calls rt
                (append_turn a (AssistantToolCalls (content response_message)
                                              (tool_calls response_message)))
                (tool_calls response_message) of
           (a', Inl e) \<Rightarrow> Some (a', sent, Inl e)
         | (a', Inr u) \<Rightarrow>
             (case submit rt a' sent of
                (sent', Inl e) \<Rightarrow> Some (a', sent', Inl e)
              | (sent', Inr response_message') \<Rightarrow> chat_loop rt a' sent' response_message'))
      else
        Some (append_turn a (AssistantMessage (final_text response_message)), sent,
              Inr (final_text response_message)))"

declare chat_loop.simps [code]

definition chat :: "runtime \<Rightarrow> agent \<Rightarrow> string \<Rightarrow> (agent \<times> request list \<times> (exn + string)) option" where
  "chat rt a user_message =
     (let a' = append_turn a (UserMessage user_message)
      in case submit rt a' [] of
           (sent, Inl e) \<Rightarrow> Some (a', sent, Inl e)
         | (sent, Inr response_message) \<Rightarrow> chat_loop rt a' sent response_message)"

definition reset_conversation :: "agent \<Rightarrow> agent" where
  "reset_conversation a = a\<lparr>conversation_history := []\<rparr>"


section \<open>Notions used in the statements\<close>



definition schema_default :: "string \<Rightarrow> string \<Rightarrow> json" where
  "schema_default name p =
     (case lookup_param name p of
        None \<Rightarrow> JNull
      | Some q \<Rightarrow> (case p_default q of None \<Rightarrow> JNull | Some d \<Rightarrow> d))"

definition argument :: "(string \<times> json) list \<Rightarrow> string \<Rightarrow> string \<Rightarrow> json" where
  "argument kvs name p = (case map_of kvs p of Some v \<Rightarrow> v | None \<Rightarrow> schema_default name p)"


definition mode_enum :: "string list" where
  "mode_enum =
     (case lookup_param ''get_route'' ''mode'' of
        None \<Rightarrow> []
      | Some q \<Rightarrow> (case p_enum q of None \<Rightarrow> [] | Some e \<Rightarrow> e))"




text \<open>
  What one tool request comes to: the payload is decoded and the dispatcher is called
  (lines 63-72 of agent.py). The \<^verbatim>\<open>tool_call_id\<close> of a tool message, and the request
  that \<open>submit\<close> sends for a given prompt and agent.
\<close>

definition dispatch :: "runtime \<Rightarrow> tool_call \<Rightarrow> exn + envelope" where
  "dispatch rt tc =
     (case json_loads rt (tc_arguments tc) of
        None \<Rightarrow> Inl JSONDecodeError
      | Some function_args \<Rightarrow> execute_tool (the_servers rt) (tc_name tc) function_args)"

fun tool_call_id :: "message \<Rightarrow> string option" where
  "tool_call_id (ToolMessage i c) = Some i"
| "tool_call_id other = None"

definition request_of :: "string \<Rightarrow> agent \<Rightarrow> request" where
  "request_of prompt a =
     \<lparr>req_model = model a, req_messages = SystemMessage prompt # conversation_history a,
      req_tools = TOOLS, req_tool_choice = ''auto''\<rparr>"

section \<open>Sample data\<close>

text \<open>
  Concrete values on which the definitions are evaluated below. \<open>str_int\<close> is Python's
  \<^verbatim>\<open>str\<close> on an \<^verbatim>\<open>int\<close>; the sample trips have integer coordinates.
\<close>

fun str_nat :: "nat \<Rightarrow> string" where
  "str_nat n =
     (if n < 10 then [char_of (48 + n)] else str_nat (n div 10) @ [char_of (48 + n mod 10)])"

declare str_nat.simps [simp del]

definition str_int :: "int \<Rightarrow> string" where
  "str_int i = (if i < 0 then ''-'' @ str_nat (nat (- i)) else str_nat (nat i))"

fun sample_format :: "json \<Rightarrow> string" where
  "sample_format (JInt i) = str_int i"
| "sample_format other = ''?''"

definition home :: place where
  "home = \<lparr>lat = JInt 33, lon = JInt 35, label = ''Home''\<rparr>"

definition office :: place where
  "office = \<lparr>lat = JInt 34, lon = JInt 36, label = ''Office''\<rparr>"

definition gym :: place where
  "gym = \<lparr>lat = JInt 35, lon = JInt 37, label = ''Gym''\<rparr>"

definition sample_trips :: "trip list" where
  "sample_trips =
     [\<lparr>date = ''2024-03-03'', origin = home, destination = gym,
       distance_km = 2, duration_minutes = 9, mode = ''walking'', hour = 18\<rparr>,
      \<lparr>date = ''2024-03-02'', origin = office, destination = home,
       distance_km = 7, duration_minutes = 21, mode = ''driving'', hour = 17\<rparr>,
      \<lparr>date = ''2024-03-01'', origin = home, destination = office,
       distance_km = 7, duration_minutes = 20, mode = ''driving'', hour = 8\<rparr>]"

text \<open>
  Servers without a network: every HTTP handler answers with a failure envelope, except
  the route handler, which reports the profile it was given. The statistics of the sample only
  count the trips.
\<close>

definition sample_servers :: servers where
  "sample_servers =
     \<lparr>geocode_try = (\<lambda>q. Failure ''Geocoding error: offline''),
      reverse_geocode_try = (\<lambda>la lo. Failure ''Reverse geocoding error: offline''),
      search_poi_try = (\<lambda>la lo r c k. Success [(''radius'', r), (''category'', c), (''key'', k)]),
      get_place_details_try = (\<lambda>p. Failure ''Place details error: offline''),
      get_route_try = (\<lambda>p a b c d m. Success [(''profile'', JStr p), (''mode'', JStr m)]),
      trip_data = sample_trips,
      format_number = sample_format,
      travel_summary = (\<lambda>s e ts. Success [(''total_trips'', JInt (int (length ts)))]),
      get_typical_route_try = (\<lambda>a b h. Success [(''time_of_day_filter'', h)]),
      get_current_weather_try = (\<lambda>la lo f. Success [(''include_forecast'', f)]),
      get_air_quality_try = (\<lambda>la lo. Failure ''Air quality data error: offline''),
      get_astronomy_data_try = (\<lambda>la lo d. Success [(''date'', d)])\<rparr>"

text \<open>
  \<^verbatim>\<open>json.loads\<close> on the payloads the examples use: two objects, and a lone brace,
  which is not JSON. \<^verbatim>\<open>json.dumps\<close> with its default separators, on values without
  floats and without characters that need escaping.
\<close>

definition double_quoted :: "string \<Rightarrow> string" where
  "double_quoted s = [CHR 0x22] @ s @ [CHR 0x22]"

definition query_payload :: string where
  "query_payload = ''{'' @ double_quoted ''query'' @ '': '' @ double_quoted ''Paris'' @ ''}''"

definition sample_loads :: "string \<Rightarrow> json option" where
  "sample_loads s =
     map_of [(''{}'', JObj []), (query_payload, JObj [(''query'', JStr ''Paris'')])] s"

fun comma_separated :: "string list \<Rightarrow> string" where
  "comma_separated [] = []"
| "comma_separated [x] = x"
| "comma_separated (x # y # zs) = x @ '', '' @ comma_separated (y # zs)"

primrec sample_dumps :: "json \<Rightarrow> string" where
  "sample_dumps JNull = ''null''"
| "sample_dumps (JBool b) = (if b then ''true'' else ''false'')"
| "sample_dumps (JInt i) = str_int i"
| "sample_dumps (JFloat r) = ''?''"
| "sample_dumps (JStr s) = double_quoted s"
| "sample_dumps (JArr xs) = ''['' @ comma_separated (map sample_dumps xs) @ '']''"
| "sample_dumps (JObj kvs) =
     ''{'' @ comma_separated
              (map (\<lambda>kv. double_quoted (fst kv) @ '': '' @ snd kv)
                   (map (map_prod id sample_dumps) kvs)) @ ''}''"

text \<open>
  An endpoint that fails, and a scripted model: asked with a history of one turn it
  requests \<^verbatim>\<open>geocode\<close> and then an unregistered tool; asked again it answers in text.
\<close>

definition failing_create :: "string option \<Rightarrow> request \<Rightarrow> exn + reply" where
  "failing_create key rq = Inl (EndpointError ''401 Unauthorized'')"

definition two_calls :: "tool_call list" where
  "two_calls =
     [\<lparr>tc_id = ''call_1'', tc_name = ''geocode'', tc_arguments = query_payload\<rparr>,
      \<lparr>tc_id = ''call_2'', tc_name = ''teleport'', tc_arguments = ''{}''\<rparr>]"

definition scripted_create :: "tool_call list \<Rightarrow> string option \<Rightarrow> request \<Rightarrow> exn + reply" where
  "scripted_create calls key rq =
     (if length (req_messages rq) = 2 then Inr \<lparr>content = None, tool_calls = calls\<rparr>
      else Inr \<lparr>content = Some ''Done.'', tool_calls = []\<rparr>)"

definition sample_runtime :: "(string option \<Rightarrow> request \<Rightarrow> exn + reply) \<Rightarrow> runtime" where
  "sample_runtime endpoint =
     \<lparr>agent_prompt = Some ''You are a map assistant.'', create = endpoint,
      json_loads = sample_loads, json_dumps = sample_dumps, the_servers = sample_servers\<rparr>"

definition new_agent :: agent where
  "new_agent =
     \<lparr>client = Some ''sk-test'', model = Some ''gpt-4o'', conversation_history = [],
      verbose = True\<rparr>"

text \<open>
  Two argument mappings: one with every required key of every tool and no optional key,
  and a \<^verbatim>\<open>get_route\<close> request with a given mode.
\<close>

definition all_required :: "(string \<times> json) list" where
  "all_required =
     [(''latitude'', JInt 33), (''longitude'', JInt 35),
      (''origin_lat'', JInt 33), (''origin_lon'', JInt 35),
      (''dest_lat'', JInt 34), (''dest_lon'', JInt 36),
      (''origin_label'', JStr ''Home''), (''destination_label'', JStr ''Office'')]"

definition hop :: "string \<Rightarrow> (string \<times> json) list" where
  "hop m = [(''origin_lat'', JInt 33), (''origin_lon'', JInt 35),
            (''dest_lat'', JInt 34), (''dest_lon'', JInt 36), (''mode'', JStr m)]"



text \<open>
  A round of three requests whose second payload is not JSON, and the agent after the
  user has asked.
\<close>

definition broken_calls :: "tool_call list" where
  "broken_calls =
     [\<lparr>tc_id = ''call_1'', tc_name = ''geocode'', tc_arguments = query_payload\<rparr>,
      \<lparr>tc_id = ''call_2'', tc_name = ''geocode'', tc_arguments = ''{''\<rparr>,
      \<lparr>tc_id = ''call_3'', tc_name = ''teleport'', tc_arguments = ''{}''\<rparr>]"

definition asked :: agent where
  "asked = new_agent\<lparr>conversation_history := [UserMessage ''Where is Paris?'']\<rparr>"

text \<open>
  The prompt of the sample runtime, the two tool turns of the scripted round, the reply
  that requests them, the agent after that round and after the interrupted one, an
  endpoint that fails at its second call, and one that answers in text at once.
\<close>

definition prompt :: string where
  "prompt = ''You are a map assistant.''"

definition geocode_turn :: message where
  "geocode_turn =
     ToolMessage ''call_1'' (sample_dumps (envelope_json (Failure ''Geocoding error: offline'')))"

definition teleport_turn :: message where
  "teleport_turn =
     ToolMessage ''call_2'' (sample_dumps (envelope_json (Failure ''Unknown tool: teleport'')))"

definition requested :: reply where
  "requested = \<lparr>content = None, tool_calls = two_calls\<rparr>"

definition answered :: agent where
  "answered =
     new_agent\<lparr>conversation_history :=
       [UserMessage ''Where is Paris?'', AssistantToolCalls None two_calls,
        geocode_turn, teleport_turn]\<rparr>"

definition interrupted :: agent where
  "interrupted =
     new_agent\<lparr>conversation_history :=
       [UserMessage ''Where is Paris?'', AssistantToolCalls None broken_calls, geocode_turn]\<rparr>"

definition failing_later :: "string option \<Rightarrow> request \<Rightarrow> exn + reply" where
  "failing_later key rq =
     (if length (req_messages rq) = 2 then Inr requested
      else Inl (EndpointError ''429 Too Many Requests''))"

definition plain_create :: "string option \<Rightarrow> request \<Rightarrow> exn + reply" where
  "plain_create key rq = Inr \<lparr>content = Some ''Paris is in France.'', tool_calls = []\<rparr>"

text \<open>
  Two rounds whose payloads all decode: in the first \<^verbatim>\<open>geocode\<close> is asked without its
  query, in the second \<^verbatim>\<open>reverse_geocode\<close> is asked without coordinates after a
  \<^verbatim>\<open>geocode\<close> request that is in order. The agents are those that \<^verbatim>\<open>chat\<close> leaves.
\<close>

definition keyless_calls :: "tool_call list" where
  "keyless_calls =
     [\<lparr>tc_id = ''call_1'', tc_name = ''geocode'', tc_arguments = ''{}''\<rparr>,
      \<lparr>tc_id = ''call_2'', tc_name = ''teleport'', tc_arguments = ''{}''\<rparr>]"

definition unanswered :: agent where
  "unanswered =
     new_agent\<lparr>conversation_history :=
       [UserMessage ''Where is Paris?'', AssistantToolCalls None keyless_calls]\<rparr>"



section \<open>Facts about the catalog and the dispatcher\<close>

lemma tool_names_eq:
  "tool_names = [''geocode'', ''reverse_geocode'', ''search_poi'', ''get_place_details'',
     ''get_route'', ''get_frequent_places'', ''summarize_travel_stats'', ''get_typical_route'',
     ''get_current_weather'', ''get_air_quality'', ''get_astronomy_data'']"
  by (simp add: tool_names_def TOOLS_def)




lemma schema_default_simps:
  "schema_default ''search_poi'' ''radius'' = JInt 1000"
  "schema_default ''search_poi'' ''category'' = JStr ''amenity''"
  "schema_default ''search_poi'' ''key'' = JNull"
  "schema_default ''get_route'' ''mode'' = JStr ''driving''"
  "schema_default ''get_frequent_places'' ''start_date'' = JNull"
  "schema_default ''get_frequent_places'' ''end_date'' = JNull"
  "schema_default ''get_frequent_places'' ''min_visits'' = JInt 3"
  "schema_default ''summarize_travel_stats'' ''start_date'' = JNull"
  "schema_default ''summarize_travel_stats'' ''end_date'' = JNull"
  "schema_default ''get_typical_route'' ''time_of_day'' = JNull"
  "schema_default ''get_current_weather'' ''include_forecast'' = JBool False"
  "schema_default ''get_astronomy_data'' ''date'' = JNull"
  by (simp_all add: schema_default_def lookup_param_def lookup_tool_def TOOLS_def
        plain_param_def default_param_def)


lemma execute_tool_table:
  "execute_tool sv ''geocode'' arguments =
        and_then (subscript arguments ''query'') (\<lambda>query.
        Inr (geocode sv query))"
  "execute_tool sv ''reverse_geocode'' arguments =
        and_then (subscript arguments ''latitude'') (\<lambda>la.
        and_then (subscript arguments ''longitude'') (\<lambda>lo.
        Inr (reverse_geocode sv la lo)))"
  "execute_tool sv ''search_poi'' arguments =
        and_then (subscript arguments ''latitude'') (\<lambda>la.
        and_then (subscript arguments ''longitude'') (\<lambda>lo.
        and_then (get_or arguments ''radius'' (JInt 1000)) (\<lambda>radius.
        and_then (get_or arguments ''category'' (JStr ''amenity'')) (\<lambda>category.
        and_then (get_or arguments ''key'' JNull) (\<lambda>key.
        Inr (search_poi sv la lo radius category key))))))"
  "execute_tool sv ''get_place_details'' arguments =
        and_then (subscript arguments ''place_id'') (\<lambda>place_id.
        Inr (get_place_details sv place_id))"
  "execute_tool sv ''get_route'' arguments =
        and_then (subscript arguments ''origin_lat'') (\<lambda>origin_lat.
        and_then (subscript arguments ''origin_lon'') (\<lambda>origin_lon.
        and_then (subscript arguments ''dest_lat'') (\<lambda>dest_lat.
        and_then (subscript arguments ''dest_lon'') (\<lambda>dest_lon.
        and_then (get_or arguments ''mode'' (JStr ''driving'')) (\<lambda>md.
        get_route sv origin_lat origin_lon dest_lat dest_lon md)))))"
  "execute_tool sv ''get_frequent_places'' arguments =
        and_then (get arguments ''start_date'') (\<lambda>start_date.
        and_then (get arguments ''end_date'') (\<lambda>end_date.
        and_then (get_or arguments ''min_visits'' (JInt 3)) (\<lambda>min_visits.
        Inr (get_frequent_places sv start_date end_date min_visits))))"
  "execute_tool sv ''summarize_travel_stats'' arguments =
        and_then (get arguments ''start_date'') (\<lambda>start_date.
        and_then (get arguments ''end_date'') (\<lambda>end_date.
        Inr (summarize_travel_stats sv start_date end_date)))"
  "execute_tool sv ''get_typical_route'' arguments =
        and_then (subscript arguments ''origin_label'') (\<lambda>origin_label.
        and_then (subscript arguments ''destination_label'') (\<lambda>destination_label.
        and_then (get arguments ''time_of_day'') (\<lambda>time_of_day.
        Inr (get_typical_route sv origin_label destination_label time_of_day))))"
  "execute_tool sv ''get_current_weather'' arguments =
        and_then (subscript arguments ''latitude'') (\<lambda>la.
        and_then (subscript arguments ''longitude'') (\<lambda>lo.
        and_then (get_or arguments ''include_forecast'' (JBool False)) (\<lambda>include_forecast.
        Inr (get_current_weather sv la lo include_forecast))))"
  "execute_tool sv ''get_air_quality'' arguments =
        and_then (subscript arguments ''latitude'') (\<lambda>la.
        and_then (subscript arguments ''longitude'') (\<lambda>lo.
        Inr (get_air_quality sv la lo)))"
  "execute_tool sv ''get_astronomy_data'' arguments =
        and_then (subscript arguments ''latitude'') (\<lambda>la.
        and_then (subscript arguments ''longitude'') (\<lambda>lo.
        and_then (get arguments ''date'') (\<lambda>dt.
        Inr (get_astronomy_data sv la lo dt))))"
  by (simp_all add: execute_tool_def)
















lemma argument_simps:
  "map_of kvs p = Some v \<Longrightarrow> argument kvs name p = v"
  "map_of kvs p = None \<Longrightarrow> argument kvs name p = schema_default name p"
  by (simp_all add: argument_def)

lemma get_or_argument:
  "get_or (JObj kvs) p (schema_default name p) = Inr (argument kvs name p)"
  by (simp add: argument_def split: option.splits)

lemma get_argument:
  "schema_default name p = JNull \<Longrightarrow> get (JObj kvs) p = Inr (argument kvs name p)"
  by (simp add: get_def argument_def split: option.splits)

lemma execute_search_poi:
  "map_of kvs ''latitude'' = Some la \<Longrightarrow> map_of kvs ''longitude'' = Some lo \<Longrightarrow>
   execute_tool sv ''search_poi'' (JObj kvs) =
     Inr (search_poi sv la lo (argument kvs ''search_poi'' ''radius'')
            (argument kvs ''search_poi'' ''category'') (argument kvs ''search_poi'' ''key''))"
  using get_or_argument [of kvs "''radius''" "''search_poi''"]
    get_or_argument [of kvs "''category''" "''search_poi''"]
    get_or_argument [of kvs "''key''" "''search_poi''"]
  by (simp add: execute_tool_table and_then_def schema_default_simps)

lemma execute_get_route:
  "map_of kvs ''origin_lat'' = Some a \<Longrightarrow> map_of kvs ''origin_lon'' = Some b \<Longrightarrow>
   map_of kvs ''dest_lat'' = Some c \<Longrightarrow> map_of kvs ''dest_lon'' = Some d \<Longrightarrow>
   execute_tool sv ''get_route'' (JObj kvs) =
     get_route sv a b c d (argument kvs ''get_route'' ''mode'')"
  using get_or_argument [of kvs "''mode''" "''get_route''"]
  by (simp add: execute_tool_table and_then_def schema_default_simps)

lemma execute_get_frequent_places:
  "execute_tool sv ''get_frequent_places'' (JObj kvs) =
     Inr (get_frequent_places sv (argument kvs ''get_frequent_places'' ''start_date'')
            (argument kvs ''get_frequent_places'' ''end_date'')
            (argument kvs ''get_frequent_places'' ''min_visits''))"
  using get_or_argument [of kvs "''min_visits''" "''get_frequent_places''"]
    get_argument [of "''get_frequent_places''" "''start_date''" kvs]
    get_argument [of "''get_frequent_places''" "''end_date''" kvs]
  by (simp add: execute_tool_table and_then_def schema_default_simps)

lemma execute_summarize_travel_stats:
  "execute_tool sv ''summarize_travel_stats'' (JObj kvs) =
     Inr (summarize_travel_stats sv (argument kvs ''summarize_travel_stats'' ''start_date'')
            (argument kvs ''summarize_travel_stats'' ''end_date''))"
  using get_argument [of "''summarize_travel_stats''" "''start_date''" kvs]
    get_argument [of "''summarize_travel_stats''" "''end_date''" kvs]
  by (simp add: execute_tool_table and_then_def schema_default_simps)

lemma execute_get_typical_route:
  "map_of kvs ''origin_label'' = Some a \<Longrightarrow> map_of kvs ''destination_label'' = Some b \<Longrightarrow>
   execute_tool sv ''get_typical_route'' (JObj kvs) =
     Inr (get_typical_route sv a b (argument kvs ''get_typical_route'' ''time_of_day''))"
  using get_argument [of "''get_typical_route''" "''time_of_day''" kvs]
  by (simp add: execute_tool_table and_then_def schema_default_simps)

lemma execute_get_current_weather:
  "map_of kvs ''latitude'' = Some la \<Longrightarrow> map_of kvs ''longitude'' = Some lo \<Longrightarrow>
   execute_tool sv ''get_current_weather'' (JObj kvs) =
     Inr (get_current_weather sv la lo (argument kvs ''get_current_weather'' ''include_forecast''))"
  using get_or_argument [of kvs "''include_forecast''" "''get_current_weather''"]
  by (simp add: execute_tool_table and_then_def schema_default_simps)

lemma execute_get_astronomy_data:
  "map_of kvs ''latitude'' = Some la \<Longrightarrow> map_of kvs ''longitude'' = Some lo \<Longrightarrow>
   execute_tool sv ''get_astronomy_data'' (JObj kvs) =
     Inr (get_astronomy_data sv la lo (argument kvs ''get_astronomy_data'' ''date''))"
  using get_argument [of "''get_astronomy_data''" "''date''" kvs]
  by (simp add: execute_tool_table and_then_def schema_default_simps)

lemma omitted_defaults:
  "map_of kvs ''radius'' = None \<longrightarrow> argument kvs ''search_poi'' ''radius'' = JInt 1000"
  "map_of kvs ''category'' = None \<longrightarrow> argument kvs ''search_poi'' ''category'' = JStr ''amenity''"
  "map_of kvs ''key'' = None \<longrightarrow> argument kvs ''search_poi'' ''key'' = JNull"
  "map_of kvs ''mode'' = None \<longrightarrow> argument kvs ''get_route'' ''mode'' = JStr ''driving''"
  "map_of kvs ''min_visits'' = None \<longrightarrow> argument kvs ''get_frequent_places'' ''min_visits'' = JInt 3"
  "map_of kvs ''include_forecast'' = None
     \<longrightarrow> argument kvs ''get_current_weather'' ''include_forecast'' = JBool False"
  "map_of kvs ''start_date'' = None
     \<longrightarrow> argument kvs ''get_frequent_places'' ''start_date'' = JNull
       \<and> argument kvs ''summarize_travel_stats'' ''start_date'' = JNull"
  "map_of kvs ''end_date'' = None
     \<longrightarrow> argument kvs ''get_frequent_places'' ''end_date'' = JNull
       \<and> argument kvs ''summarize_travel_stats'' ''end_date'' = JNull"
  "map_of kvs ''time_of_day'' = None \<longrightarrow> argument kvs ''get_typical_route'' ''time_of_day'' = JNull"
  "map_of kvs ''date'' = None \<longrightarrow> argument kvs ''get_astronomy_data'' ''date'' = JNull"
  by (simp_all add: argument_def schema_default_simps)

lemma sample_frequent_3:
  "get_frequent_places sample_servers JNull JNull (JInt 3) =
     Success [(''time_window'', JObj [(''start_date'', JStr ''2024-03-01''),
                                      (''end_date'', JStr ''2024-03-03'')]),
              (''total_places'', JInt 1),
              (''places'', JArr [JObj [(''label'', JStr ''Home''), (''latitude'', JInt 33),
                                       (''longitude'', JInt 35), (''visit_count'', JInt 3)]])]"
  by code_simp

lemma mode_enum_eq: "mode_enum = [''driving'', ''walking'', ''cycling'']"
  by (simp add: mode_enum_def lookup_param_def lookup_tool_def TOOLS_def plain_param_def)

lemma profile_cases:
  "lower m = ''driving'' \<or> lower m = ''car'' \<Longrightarrow> profile m = ''car''"
  "lower m = ''walking'' \<or> lower m = ''foot'' \<Longrightarrow> profile m = ''foot''"
  "lower m = ''cycling'' \<or> lower m = ''bike'' \<Longrightarrow> profile m = ''bike''"
  "lower m \<notin> set (map fst mode_map) \<Longrightarrow> profile m = ''car''"
  by (auto simp add: profile_def mode_map_def)

section \<open>Facts about the history server\<close>


lemma select_frequent_Nil: "select_frequent min_visits [] = Inr []"
  by simp
















section \<open>Facts about the agent loop\<close>

lemma run_tool_calls_Cons:
  "run_tool_calls rt a (tc # tcs) =
     (case dispatch rt tc of
        Inl e \<Rightarrow> (a, Inl e)
      | Inr env \<Rightarrow> run_tool_calls rt (append_turn a (tool_turn rt tc env)) tcs)"
  by (simp add: dispatch_def split: option.splits)

lemma run_tool_calls_prefix:
  "run_tool_calls rt a tcs = (a', res) \<Longrightarrow>
   \<exists>envs. length envs \<le> length tcs
     \<and> (\<forall>i < length envs. dispatch rt (tcs ! i) = Inr (envs ! i))
     \<and> a' = a\<lparr>conversation_history := conversation_history a @ map2 (tool_turn rt) tcs envs\<rparr>
     \<and> (case res of
          Inr u \<Rightarrow> length envs = length tcs
        | Inl e \<Rightarrow> length envs < length tcs \<and> dispatch rt (tcs ! length envs) = Inl e)"
proof (induction tcs arbitrary: a)
  case Nil
  then show ?case by (intro exI [of _ "[]"]) auto
next
  case (Cons tc tcs)
  show ?case
  proof (cases "dispatch rt tc")
    case (Inl e)
    from Cons.prems have "a' = a" "res = Inl e"
      unfolding run_tool_calls_Cons Inl by simp_all
    with Inl show ?thesis by (intro exI [of _ "[]"]) simp
  next
    case (Inr env)
    let ?b = "append_turn a (tool_turn rt tc env)"
    from Cons.prems have "run_tool_calls rt ?b tcs = (a', res)"
      unfolding run_tool_calls_Cons Inr by simp
    from Cons.IH [OF this] obtain envs where envs:
      "length envs \<le> length tcs"
      "\<forall>i < length envs. dispatch rt (tcs ! i) = Inr (envs ! i)"
      "a' = ?b\<lparr>conversation_history := conversation_history ?b @ map2 (tool_turn rt) tcs envs\<rparr>"
      "case res of Inr u \<Rightarrow> length envs = length tcs
        | Inl e \<Rightarrow> length envs < length tcs \<and> dispatch rt (tcs ! length envs) = Inl e"
      by blast
    have 1: "length (env # envs) \<le> length (tc # tcs)" using envs(1) by simp
    have 2: "\<forall>i < length (env # envs). dispatch rt ((tc # tcs) ! i) = Inr ((env # envs) ! i)"
      using envs(2) Inr by (auto simp add: nth_Cons split: nat.splits)
    have 3: "a' = a\<lparr>conversation_history :=
                 conversation_history a @ map2 (tool_turn rt) (tc # tcs) (env # envs)\<rparr>"
      using envs(3) by (simp add: append_turn_def)
    have 4: "case res of Inr u \<Rightarrow> length (env # envs) = length (tc # tcs)
        | Inl e \<Rightarrow> length (env # envs) < length (tc # tcs)
                   \<and> dispatch rt ((tc # tcs) ! length (env # envs)) = Inl e"
      using envs(4) by (cases res) simp_all
    from 1 2 3 4 show ?thesis by blast
  qed
qed

lemma tool_call_id_map2:
  "length tcs = length envs \<Longrightarrow>
   map tool_call_id (map2 (tool_turn rt) tcs envs) = map (\<lambda>tc. Some (tc_id tc)) tcs"
  by (induction tcs envs rule: list_induct2) (simp_all add: tool_turn_def)

lemma chat_loop_round:
  "tool_calls r \<noteq> [] \<Longrightarrow>
   run_tool_calls rt (append_turn a (AssistantToolCalls (content r) (tool_calls r)))
     (tool_calls r) = (a', Inr u) \<Longrightarrow>
   chat_loop rt a sent r =
     (case submit rt a' sent of
        (sent', Inl e) \<Rightarrow> Some (a', sent', Inl e)
      | (sent', Inr r') \<Rightarrow> chat_loop rt a' sent' r')"
  by (subst chat_loop.simps) simp

lemma chat_loop_abort:
  "tool_calls r \<noteq> [] \<Longrightarrow>
   run_tool_calls rt (append_turn a (AssistantToolCalls (content r) (tool_calls r)))
     (tool_calls r) = (a', Inl e) \<Longrightarrow>
   chat_loop rt a sent r = Some (a', sent, Inl e)"
  by (subst chat_loop.simps) simp

lemma chat_loop_final:
  "tool_calls r = [] \<Longrightarrow>
   chat_loop rt a sent r =
     Some (append_turn a (AssistantMessage (final_text r)), sent, Inr (final_text r))"
  by (subst chat_loop.simps) simp

lemma submit_prompt:
  "agent_prompt rt = Some p \<Longrightarrow>
   submit rt a sent = (sent @ [request_of p a], create rt (client a) (request_of p a))"
  by (simp add: submit_def get_system_prompt_def request_of_def messages_def Let_def)

lemma run_tool_calls_malformed:
  "json_loads rt (tc_arguments tc) = None \<Longrightarrow>
   \<forall>t \<in> set pre. \<exists>env. dispatch rt t = Inr env \<Longrightarrow>
   \<exists>envs. length envs = length pre
     \<and> (\<forall>i < length pre. dispatch rt (pre ! i) = Inr (envs ! i))
     \<and> run_tool_calls rt a (pre @ tc # post) =
         (a\<lparr>conversation_history := conversation_history a @ map2 (tool_turn rt) pre envs\<rparr>,
          Inl JSONDecodeError)"
proof (induction pre arbitrary: a)
  case Nil
  then show ?case by simp
next
  case (Cons t pre)
  from Cons.prems(2) obtain env where env: "dispatch rt t = Inr env" by auto
  let ?b = "append_turn a (tool_turn rt t env)"
  from Cons.prems(2) have "\<forall>t \<in> set pre. \<exists>env. dispatch rt t = Inr env" by simp
  from Cons.IH [OF Cons.prems(1) this, of ?b] obtain envs where envs:
    "length envs = length pre"
    "\<forall>i < length pre. dispatch rt (pre ! i) = Inr (envs ! i)"
    "run_tool_calls rt ?b (pre @ tc # post) =
       (?b\<lparr>conversation_history := conversation_history ?b @ map2 (tool_turn rt) pre envs\<rparr>,
        Inl JSONDecodeError)"
    by blast
  have 1: "length (env # envs) = length (t # pre)" using envs(1) by simp
  have 2: "\<forall>i < length (t # pre). dispatch rt ((t # pre) ! i) = Inr ((env # envs) ! i)"
    using envs(2) env by (auto simp add: nth_Cons split: nat.splits)
  have 3: "run_tool_calls rt a ((t # pre) @ tc # post) =
      (a\<lparr>conversation_history :=
           conversation_history a @ map2 (tool_turn rt) (t # pre) (env # envs)\<rparr>,
       Inl JSONDecodeError)"
    using envs(3) unfolding append_Cons run_tool_calls_Cons env
    by (simp add: append_turn_def)
  from 1 2 3 show ?case by blast
qed



lemma run_tool_calls_all:
  assumes "\<forall>t \<in> set tcs. \<exists>env. dispatch rt t = Inr env"
  shows "\<exists>envs. length envs = length tcs
     \<and> (\<forall>i < length tcs. dispatch rt (tcs ! i) = Inr (envs ! i))
     \<and> run_tool_calls rt a tcs =
         (a\<lparr>conversation_history := conversation_history a @ map2 (tool_turn rt) tcs envs\<rparr>,
          Inr ())"
proof -
  obtain a' res where run: "run_tool_calls rt a tcs = (a', res)"
    by (cases "run_tool_calls rt a tcs")
  from run_tool_calls_prefix [OF run] obtain envs where envs:
    "length envs \<le> length tcs"
    "\<forall>i < length envs. dispatch rt (tcs ! i) = Inr (envs ! i)"
    "a' = a\<lparr>conversation_history := conversation_history a @ map2 (tool_turn rt) tcs envs\<rparr>"
    "case res of Inr u \<Rightarrow> length envs = length tcs
      | Inl e \<Rightarrow> length envs < length tcs \<and> dispatch rt (tcs ! length envs) = Inl e"
    by blast
  have full: "length envs = length tcs \<and> res = Inr ()"
  proof (cases res)
    case (Inr u)
    with envs(4) show ?thesis by simp
  next
    case (Inl e)
    with envs(4) have short: "length envs < length tcs"
      and raised: "dispatch rt (tcs ! length envs) = Inl e"
      by simp_all
    from short have "tcs ! length envs \<in> set tcs" by simp
    with assms obtain env where "dispatch rt (tcs ! length envs) = Inr env" by blast
    with raised show ?thesis by simp
  qed
  with envs(2) envs(3) run show ?thesis by auto
qed



section \<open>The claims\<close>





text \<open>
  C6. For every tool name that is not one of the eleven names of the catalog and for
  every argument value, \<open>execute_tool\<close> returns (it does not raise) the envelope
  \<^verbatim>\<open>{"success": False, "error": "Unknown tool: <name>"}\<close> with the given name.
\<close>

theorem execute_tool_unknown:
  "tool_name \<notin> set tool_names \<longrightarrow>
     execute_tool sv tool_name arguments = Inr (Failure (''Unknown tool: '' @ tool_name))
     \<and> map_sum id envelope_json (execute_tool sv tool_name arguments)
         = Inr (JObj [(''success'', JBool False), (''error'', JStr (''Unknown tool: '' @ tool_name))])"
proof
  assume "tool_name \<notin> set tool_names"
  then have "tool_name \<noteq> ''geocode''" "tool_name \<noteq> ''reverse_geocode''"
    "tool_name \<noteq> ''search_poi''" "tool_name \<noteq> ''get_place_details''"
    "tool_name \<noteq> ''get_route''" "tool_name \<noteq> ''get_frequent_places''"
    "tool_name \<noteq> ''summarize_travel_stats''" "tool_name \<noteq> ''get_typical_route''"
    "tool_name \<noteq> ''get_current_weather''" "tool_name \<noteq> ''get_air_quality''"
    "tool_name \<noteq> ''get_astronomy_data''"
    by (simp_all add: tool_names_eq)
  then have returned: "execute_tool sv tool_name arguments
      = Inr (Failure (''Unknown tool: '' @ tool_name))"
    by (simp add: execute_tool_def)
  then show "execute_tool sv tool_name arguments = Inr (Failure (''Unknown tool: '' @ tool_name))
     \<and> map_sum id envelope_json (execute_tool sv tool_name arguments)
         = Inr (JObj [(''success'', JBool False), (''error'', JStr (''Unknown tool: '' @ tool_name))])"
    by simp
qed

theorem execute_tool_unknown_witness:
  "length tool_names = 11 \<and> ''teleport'' \<notin> set tool_names
   \<and> execute_tool sample_servers ''teleport'' (JObj [(''to'', JStr ''Mars'')])
       = Inr (Failure ''Unknown tool: teleport'')
   \<and> execute_tool sample_servers ''teleport'' (JArr [])
       = Inr (Failure ''Unknown tool: teleport'')"
proof -
  have h: "''teleport'' \<notin> set tool_names" by (simp add: tool_names_eq)
  show ?thesis
    using h execute_tool_unknown [of "''teleport''" sample_servers "JObj [(''to'', JStr ''Mars'')]"]
      execute_tool_unknown [of "''teleport''" sample_servers "JArr []"]
    by (simp add: tool_names_eq)
qed


text \<open>
  C8. For every argument mapping that reaches a handler, \<open>execute_tool\<close> passes for
  each optional parameter the given value or, when the key is omitted, the default that
  the schema declares: radius 1000, category \<^verbatim>\<open>"amenity"\<close> and key \<^verbatim>\<open>None\<close> for
  \<^verbatim>\<open>search_poi\<close>, mode \<^verbatim>\<open>"driving"\<close> for \<^verbatim>\<open>get_route\<close>, min\_visits 3 for
  \<^verbatim>\<open>get_frequent_places\<close>, include\_forecast \<^verbatim>\<open>False\<close> for
  \<^verbatim>\<open>get_current_weather\<close>, and \<^verbatim>\<open>None\<close> for the dates and the hour, for which
  the schema declares no default. The servers are arbitrary, so the equations say with
  which arguments the handler is called.
\<close>

theorem execute_tool_defaults:
  "(map_of kvs ''latitude'' = Some la \<and> map_of kvs ''longitude'' = Some lo \<longrightarrow>
      execute_tool sv ''search_poi'' (JObj kvs) =
        Inr (search_poi sv la lo (argument kvs ''search_poi'' ''radius'')
               (argument kvs ''search_poi'' ''category'') (argument kvs ''search_poi'' ''key''))
      \<and> execute_tool sv ''get_current_weather'' (JObj kvs) =
        Inr (get_current_weather sv la lo
               (argument kvs ''get_current_weather'' ''include_forecast''))
      \<and> execute_tool sv ''get_astronomy_data'' (JObj kvs) =
        Inr (get_astronomy_data sv la lo (argument kvs ''get_astronomy_data'' ''date'')))
   \<and> (map_of kvs ''origin_lat'' = Some a \<and> map_of kvs ''origin_lon'' = Some b
      \<and> map_of kvs ''dest_lat'' = Some c \<and> map_of kvs ''dest_lon'' = Some d \<longrightarrow>
      execute_tool sv ''get_route'' (JObj kvs) =
        get_route sv a b c d (argument kvs ''get_route'' ''mode''))
   \<and> execute_tool sv ''get_frequent_places'' (JObj kvs) =
        Inr (get_frequent_places sv (argument kvs ''get_frequent_places'' ''start_date'')
               (argument kvs ''get_frequent_places'' ''end_date'')
               (argument kvs ''get_frequent_places'' ''min_visits''))
   \<and> execute_tool sv ''summarize_travel_stats'' (JObj kvs) =
        Inr (summarize_travel_stats sv (argument kvs ''summarize_travel_stats'' ''start_date'')
               (argument kvs ''summarize_travel_stats'' ''end_date''))
   \<and> (map_of kvs ''origin_label'' = Some ol \<and> map_of kvs ''destination_label'' = Some dl \<longrightarrow>
      execute_tool sv ''get_typical_route'' (JObj kvs) =
        Inr (get_typical_route sv ol dl (argument kvs ''get_typical_route'' ''time_of_day'')))
   \<and> (map_of kvs ''radius'' = None \<longrightarrow> argument kvs ''search_poi'' ''radius'' = JInt 1000)
   \<and> (map_of kvs ''category'' = None
        \<longrightarrow> argument kvs ''search_poi'' ''category'' = JStr ''amenity'')
   \<and> (map_of kvs ''key'' = None \<longrightarrow> argument kvs ''search_poi'' ''key'' = JNull)
   \<and> (map_of kvs ''mode'' = None \<longrightarrow> argument kvs ''get_route'' ''mode'' = JStr ''driving'')
   \<and> (map_of kvs ''min_visits'' = None
        \<longrightarrow> argument kvs ''get_frequent_places'' ''min_visits'' = JInt 3)
   \<and> (map_of kvs ''include_forecast'' = None
        \<longrightarrow> argument kvs ''get_current_weather'' ''include_forecast'' = JBool False)
   \<and> (map_of kvs ''start_date'' = None
        \<longrightarrow> argument kvs ''get_frequent_places'' ''start_date'' = JNull
          \<and> argument kvs ''summarize_travel_stats'' ''start_date'' = JNull)
   \<and> (map_of kvs ''end_date'' = None
        \<longrightarrow> argument kvs ''get_frequent_places'' ''end_date'' = JNull
          \<and> argument kvs ''summarize_travel_stats'' ''end_date'' = JNull)
   \<and> (map_of kvs ''time_of_day'' = None
        \<longrightarrow> argument kvs ''get_typical_route'' ''time_of_day'' = JNull)
   \<and> (map_of kvs ''date'' = None \<longrightarrow> argument kvs ''get_astronomy_data'' ''date'' = JNull)"
  using omitted_defaults [of kvs]
  by (intro conjI impI)
     (simp_all only: execute_search_poi execute_get_current_weather execute_get_astronomy_data
        execute_get_route execute_get_frequent_places execute_summarize_travel_stats
        execute_get_typical_route simp_thms)


theorem execute_tool_defaults_witness:
  "map_of all_required ''latitude'' = Some (JInt 33) \<and> map_of all_required ''radius'' = None
   \<and> execute_tool sample_servers ''search_poi'' (JObj all_required) =
        Inr (Success [(''radius'', JInt 1000), (''category'', JStr ''amenity''), (''key'', JNull)])
   \<and> execute_tool sample_servers ''get_route'' (JObj all_required) =
        Inr (Success [(''profile'', JStr ''car''), (''mode'', JStr ''driving'')])
   \<and> execute_tool sample_servers ''get_current_weather'' (JObj all_required) =
        Inr (Success [(''include_forecast'', JBool False)])
   \<and> execute_tool sample_servers ''get_astronomy_data'' (JObj all_required) =
        Inr (Success [(''date'', JNull)])
   \<and> execute_tool sample_servers ''get_typical_route'' (JObj all_required) =
        Inr (Success [(''time_of_day_filter'', JNull)])
   \<and> execute_tool sample_servers ''get_frequent_places'' (JObj all_required) =
        Inr (Success
              [(''time_window'', JObj [(''start_date'', JStr ''2024-03-01''),
                                       (''end_date'', JStr ''2024-03-03'')]),
               (''total_places'', JInt 1),
               (''places'', JArr [JObj [(''label'', JStr ''Home''), (''latitude'', JInt 33),
                                        (''longitude'', JInt 35), (''visit_count'', JInt 3)]])])"
proof -
  have keys:
    "map_of all_required ''latitude'' = Some (JInt 33)"
    "map_of all_required ''longitude'' = Some (JInt 35)"
    "map_of all_required ''origin_lat'' = Some (JInt 33)"
    "map_of all_required ''origin_lon'' = Some (JInt 35)"
    "map_of all_required ''dest_lat'' = Some (JInt 34)"
    "map_of all_required ''dest_lon'' = Some (JInt 36)"
    "map_of all_required ''origin_label'' = Some (JStr ''Home'')"
    "map_of all_required ''destination_label'' = Some (JStr ''Office'')"
    by (simp_all add: all_required_def)
  have omitted:
    "map_of all_required ''radius'' = None" "map_of all_required ''category'' = None"
    "map_of all_required ''key'' = None" "map_of all_required ''mode'' = None"
    "map_of all_required ''min_visits'' = None" "map_of all_required ''include_forecast'' = None"
    "map_of all_required ''start_date'' = None" "map_of all_required ''end_date'' = None"
    "map_of all_required ''time_of_day'' = None" "map_of all_required ''date'' = None"
    by (simp_all add: all_required_def)
  note inst = execute_tool_defaults [of all_required "JInt 33" "JInt 35" sample_servers
      "JInt 33" "JInt 35" "JInt 34" "JInt 36" "JStr ''Home''" "JStr ''Office''"]
  from inst keys omitted
  have poi: "execute_tool sample_servers ''search_poi'' (JObj all_required) =
      Inr (search_poi sample_servers (JInt 33) (JInt 35) (JInt 1000) (JStr ''amenity'') JNull)"
    by simp
  from inst keys omitted
  have route: "execute_tool sample_servers ''get_route'' (JObj all_required) =
      get_route sample_servers (JInt 33) (JInt 35) (JInt 34) (JInt 36) (JStr ''driving'')"
    by simp
  from inst keys omitted
  have weather: "execute_tool sample_servers ''get_current_weather'' (JObj all_required) =
      Inr (get_current_weather sample_servers (JInt 33) (JInt 35) (JBool False))"
    by simp
  from inst keys omitted
  have astronomy: "execute_tool sample_servers ''get_astronomy_data'' (JObj all_required) =
      Inr (get_astronomy_data sample_servers (JInt 33) (JInt 35) JNull)"
    by simp
  from inst keys omitted
  have typical: "execute_tool sample_servers ''get_typical_route'' (JObj all_required) =
      Inr (get_typical_route sample_servers (JStr ''Home'') (JStr ''Office'') JNull)"
    by simp
  from inst keys omitted
  have frequent: "execute_tool sample_servers ''get_frequent_places'' (JObj all_required) =
      Inr (get_frequent_places sample_servers JNull JNull (JInt 3))"
    by simp
  have driving: "profile ''driving'' = ''car''"
    by code_simp
  show ?thesis
    unfolding poi route weather astronomy typical frequent sample_frequent_3
    using keys omitted
    by (simp add: search_poi_def get_route_def get_current_weather_def get_astronomy_data_def
          get_typical_route_def sample_servers_def driving)
qed


text \<open>
  C9. For every mode string, \<^verbatim>\<open>get_route\<close> runs its request with the profile found
  by lower-casing the mode and looking it up in the map driving/car, walking/foot,
  cycling/bike, car/car, foot/foot, bike/bike; a mode that is not a key of the map gets
  the profile \<^verbatim>\<open>"car"\<close> and no failure envelope of its own. \<open>execute_tool\<close> passes
  any mode string through, whether or not it is in the \<^verbatim>\<open>enum\<close> of the schema.
\<close>

theorem get_route_profile:
  "get_route sv a b c d (JStr m) = Inr (get_route_try sv (profile m) a b c d m)
   \<and> map fst mode_map = [''driving'', ''walking'', ''cycling'', ''car'', ''foot'', ''bike'']
   \<and> (lower m = ''driving'' \<or> lower m = ''car'' \<longrightarrow> profile m = ''car'')
   \<and> (lower m = ''walking'' \<or> lower m = ''foot'' \<longrightarrow> profile m = ''foot'')
   \<and> (lower m = ''cycling'' \<or> lower m = ''bike'' \<longrightarrow> profile m = ''bike'')
   \<and> (lower m \<notin> set (map fst mode_map) \<longrightarrow> profile m = ''car'')
   \<and> mode_enum = [''driving'', ''walking'', ''cycling'']
   \<and> (map_of kvs ''origin_lat'' = Some a \<and> map_of kvs ''origin_lon'' = Some b
      \<and> map_of kvs ''dest_lat'' = Some c \<and> map_of kvs ''dest_lon'' = Some d
      \<and> map_of kvs ''mode'' = Some (JStr m) \<longrightarrow>
      execute_tool sv ''get_route'' (JObj kvs)
        = Inr (get_route_try sv (profile m) a b c d m))"
proof (intro conjI impI)
  show "get_route sv a b c d (JStr m) = Inr (get_route_try sv (profile m) a b c d m)"
    by (simp add: get_route_def)
  show "map fst mode_map = [''driving'', ''walking'', ''cycling'', ''car'', ''foot'', ''bike'']"
    by (simp add: mode_map_def)
  show "mode_enum = [''driving'', ''walking'', ''cycling'']" by (rule mode_enum_eq)
next
  assume "lower m = ''driving'' \<or> lower m = ''car''"
  then show "profile m = ''car''" by (rule profile_cases)
next
  assume "lower m = ''walking'' \<or> lower m = ''foot''"
  then show "profile m = ''foot''" by (rule profile_cases)
next
  assume "lower m = ''cycling'' \<or> lower m = ''bike''"
  then show "profile m = ''bike''" by (rule profile_cases)
next
  assume "lower m \<notin> set (map fst mode_map)"
  then show "profile m = ''car''" by (rule profile_cases)
next
  assume "map_of kvs ''origin_lat'' = Some a \<and> map_of kvs ''origin_lon'' = Some b
      \<and> map_of kvs ''dest_lat'' = Some c \<and> map_of kvs ''dest_lon'' = Some d
      \<and> map_of kvs ''mode'' = Some (JStr m)"
  then show "execute_tool sv ''get_route'' (JObj kvs)
        = Inr (get_route_try sv (profile m) a b c d m)"
    by (simp add: execute_get_route argument_def get_route_def)
qed

theorem get_route_profile_witness:
  "lower ''Walking'' = ''walking'' \<and> profile ''Walking'' = ''foot''
   \<and> lower ''BIKE'' = ''bike'' \<and> profile ''BIKE'' = ''bike''
   \<and> lower ''Teleport'' \<notin> set (map fst mode_map) \<and> ''Teleport'' \<notin> set mode_enum
   \<and> profile ''Teleport'' = ''car''
   \<and> execute_tool sample_servers ''get_route'' (JObj (hop ''Teleport''))
       = Inr (Success [(''profile'', JStr ''car''), (''mode'', JStr ''Teleport'')])"
proof -
  have low1: "lower ''Walking'' = ''walking''" by code_simp
  have low2: "lower ''BIKE'' = ''bike''" by code_simp
  have low3: "lower ''Teleport'' = ''teleport''" by code_simp
  note low = low1 low2 low3
  have out: "lower ''Teleport'' \<notin> set (map fst mode_map)"
    by (simp add: low mode_map_def)
  have keys: "map_of (hop ''Teleport'') ''origin_lat'' = Some (JInt 33)
      \<and> map_of (hop ''Teleport'') ''origin_lon'' = Some (JInt 35)
      \<and> map_of (hop ''Teleport'') ''dest_lat'' = Some (JInt 34)
      \<and> map_of (hop ''Teleport'') ''dest_lon'' = Some (JInt 36)
      \<and> map_of (hop ''Teleport'') ''mode'' = Some (JStr ''Teleport'')"
    by (simp add: hop_def)
  note tele = get_route_profile [of sample_servers "JInt 33" "JInt 35" "JInt 34" "JInt 36"
      "''Teleport''" "hop ''Teleport''"]
  note walk = get_route_profile [of sample_servers "JInt 33" "JInt 35" "JInt 34" "JInt 36"
      "''Walking''" "hop ''Walking''"]
  note bike = get_route_profile [of sample_servers "JInt 33" "JInt 35" "JInt 34" "JInt 36"
      "''BIKE''" "hop ''BIKE''"]
  from walk low1 have p1: "profile ''Walking'' = ''foot''" by simp
  from bike low2 have p2: "profile ''BIKE'' = ''bike''" by simp
  from tele out have p3: "profile ''Teleport'' = ''car''" by blast
  from tele have schema: "mode_enum = [''driving'', ''walking'', ''cycling'']" by blast
  have enum: "''Teleport'' \<notin> set mode_enum" by (simp add: schema)
  from tele keys have "execute_tool sample_servers ''get_route'' (JObj (hop ''Teleport''))
      = Inr (get_route_try sample_servers (profile ''Teleport'') (JInt 33) (JInt 35) (JInt 34)
               (JInt 36) ''Teleport'')"
    by blast
  then have run: "execute_tool sample_servers ''get_route'' (JObj (hop ''Teleport''))
       = Inr (Success [(''profile'', JStr ''car''), (''mode'', JStr ''Teleport'')])"
    by (simp add: p3 sample_servers_def)
  show ?thesis using low1 low2 out enum p1 p2 p3 run by simp
qed




text \<open>
  C1, as amended. For every round whose reply carries \<open>N\<close> tool requests, each of
  which is dispatched without an exception (its payload decodes and \<open>execute_tool\<close>
  returns), the \<^verbatim>\<open>for\<close> loop runs to its end and the log gains exactly one tool turn
  per request, in the order of the requests, each built from the result of dispatching
  its request and carrying that request's id; they follow the assistant turn that carried
  the requests, and the next submission to the model is made after them, with the log
  that holds them. A loop that an exception leaves has appended the turns of the requests
  before the raising one only, in order.
\<close>

theorem tool_turns_in_request_order:
  "(tool_calls r \<noteq> [] \<and> (\<forall>tc \<in> set (tool_calls r). \<exists>env. dispatch rt tc = Inr env) \<longrightarrow>
      (\<exists>envs a'. length envs = length (tool_calls r)
         \<and> (\<forall>i < length (tool_calls r). dispatch rt (tool_calls r ! i) = Inr (envs ! i))
         \<and> run_tool_calls rt (append_turn a (AssistantToolCalls (content r) (tool_calls r)))
              (tool_calls r) = (a', Inr ())
         \<and> a' = a\<lparr>conversation_history :=
                     conversation_history a
                     @ AssistantToolCalls (content r) (tool_calls r)
                       # map2 (tool_turn rt) (tool_calls r) envs\<rparr>
         \<and> map tool_call_id (map2 (tool_turn rt) (tool_calls r) envs)
             = map (\<lambda>tc. Some (tc_id tc)) (tool_calls r)
         \<and> chat_loop rt a sent r =
             (case submit rt a' sent of
                (sent', Inl e) \<Rightarrow> Some (a', sent', Inl e)
              | (sent', Inr r') \<Rightarrow> chat_loop rt a' sent' r')
         \<and> (\<forall>p. agent_prompt rt = Some p
               \<longrightarrow> fst (submit rt a' sent) = sent @ [request_of p a'])))
   \<and> (run_tool_calls rt b tcs = (b', Inl e) \<longrightarrow>
      (\<exists>envs. length envs < length tcs
         \<and> (\<forall>i < length envs. dispatch rt (tcs ! i) = Inr (envs ! i))
         \<and> dispatch rt (tcs ! length envs) = Inl e
         \<and> b' = b\<lparr>conversation_history :=
                     conversation_history b @ map2 (tool_turn rt) tcs envs\<rparr>))"
proof (intro conjI impI)
  assume h: "tool_calls r \<noteq> [] \<and> (\<forall>tc \<in> set (tool_calls r). \<exists>env. dispatch rt tc = Inr env)"
  let ?b = "append_turn a (AssistantToolCalls (content r) (tool_calls r))"
  from h have good: "\<forall>tc \<in> set (tool_calls r). \<exists>env. dispatch rt tc = Inr env" by simp
  from run_tool_calls_all [OF good, of ?b] obtain envs where envs:
    "length envs = length (tool_calls r)"
    "\<forall>i < length (tool_calls r). dispatch rt (tool_calls r ! i) = Inr (envs ! i)"
    "run_tool_calls rt ?b (tool_calls r) =
       (?b\<lparr>conversation_history :=
             conversation_history ?b @ map2 (tool_turn rt) (tool_calls r) envs\<rparr>, Inr ())"
    by blast
  define a' where
    "a' = a\<lparr>conversation_history :=
               conversation_history a
               @ AssistantToolCalls (content r) (tool_calls r)
                 # map2 (tool_turn rt) (tool_calls r) envs\<rparr>"
  have shape: "?b\<lparr>conversation_history :=
             conversation_history ?b @ map2 (tool_turn rt) (tool_calls r) envs\<rparr> = a'"
    by (simp add: a'_def append_turn_def)
  from envs(3) have run: "run_tool_calls rt ?b (tool_calls r) = (a', Inr ())"
    unfolding shape .
  have ids: "map tool_call_id (map2 (tool_turn rt) (tool_calls r) envs)
             = map (\<lambda>tc. Some (tc_id tc)) (tool_calls r)"
    by (rule tool_call_id_map2) (simp add: envs(1))
  from h run have loop: "chat_loop rt a sent r =
          (case submit rt a' sent of
             (sent', Inl e) \<Rightarrow> Some (a', sent', Inl e)
           | (sent', Inr r') \<Rightarrow> chat_loop rt a' sent' r')"
    by (simp add: chat_loop_round)
  have sends: "\<forall>p. agent_prompt rt = Some p
      \<longrightarrow> fst (submit rt a' sent) = sent @ [request_of p a']"
    by (simp add: submit_prompt)
  from envs(1) envs(2) run a'_def ids loop sends
  show "\<exists>envs a'. length envs = length (tool_calls r)
         \<and> (\<forall>i < length (tool_calls r). dispatch rt (tool_calls r ! i) = Inr (envs ! i))
         \<and> run_tool_calls rt (append_turn a (AssistantToolCalls (content r) (tool_calls r)))
              (tool_calls r) = (a', Inr ())
         \<and> a' = a\<lparr>conversation_history :=
                     conversation_history a
                     @ AssistantToolCalls (content r) (tool_calls r)
                       # map2 (tool_turn rt) (tool_calls r) envs\<rparr>
         \<and> map tool_call_id (map2 (tool_turn rt) (tool_calls r) envs)
             = map (\<lambda>tc. Some (tc_id tc)) (tool_calls r)
         \<and> chat_loop rt a sent r =
             (case submit rt a' sent of
                (sent', Inl e) \<Rightarrow> Some (a', sent', Inl e)
              | (sent', Inr r') \<Rightarrow> chat_loop rt a' sent' r')
         \<and> (\<forall>p. agent_prompt rt = Some p
               \<longrightarrow> fst (submit rt a' sent) = sent @ [request_of p a'])"
    by blast
next
  assume "run_tool_calls rt b tcs = (b', Inl e)"
  from run_tool_calls_prefix [OF this]
  show "\<exists>envs. length envs < length tcs
         \<and> (\<forall>i < length envs. dispatch rt (tcs ! i) = Inr (envs ! i))
         \<and> dispatch rt (tcs ! length envs) = Inl e
         \<and> b' = b\<lparr>conversation_history :=
                     conversation_history b @ map2 (tool_turn rt) tcs envs\<rparr>"
    by auto
qed

theorem tool_turns_in_request_order_witness:
  "tool_calls requested \<noteq> []
   \<and> dispatch (sample_runtime (scripted_create two_calls)) (two_calls ! 0)
       = Inr (Failure ''Geocoding error: offline'')
   \<and> dispatch (sample_runtime (scripted_create two_calls)) (two_calls ! 1)
       = Inr (Failure ''Unknown tool: teleport'')
   \<and> run_tool_calls (sample_runtime (scripted_create two_calls))
        (append_turn asked (AssistantToolCalls (content requested) (tool_calls requested)))
        (tool_calls requested) = (answered, Inr ())
   \<and> conversation_history answered =
        conversation_history asked @ [AssistantToolCalls None two_calls, geocode_turn, teleport_turn]
   \<and> map tool_call_id [geocode_turn, teleport_turn] = map (\<lambda>tc. Some (tc_id tc)) two_calls
   \<and> chat_loop (sample_runtime (scripted_create two_calls)) asked [request_of prompt asked]
        requested =
        Some (append_turn answered (AssistantMessage ''Done.''),
              [request_of prompt asked, request_of prompt answered], Inr ''Done.'')
   \<and> run_tool_calls (sample_runtime (scripted_create two_calls)) asked broken_calls
        = (append_turn asked geocode_turn, Inl JSONDecodeError)"
proof -
  let ?rt = "sample_runtime (scripted_create two_calls)"
  let ?b = "append_turn asked (AssistantToolCalls (content requested) (tool_calls requested))"
  have calls: "tool_calls requested \<noteq> []"
    by (simp add: requested_def two_calls_def)
  have d0: "dispatch ?rt (two_calls ! 0) = Inr (Failure ''Geocoding error: offline'')"
    by code_simp
  have d1: "dispatch ?rt (two_calls ! 1) = Inr (Failure ''Unknown tool: teleport'')"
    by code_simp
  have "tool_calls requested = [two_calls ! 0, two_calls ! 1]"
    by (simp add: requested_def two_calls_def)
  with d0 d1 have good: "\<forall>tc \<in> set (tool_calls requested). \<exists>env. dispatch ?rt tc = Inr env"
    by simp
  have evaluated: "run_tool_calls ?rt ?b (tool_calls requested) = (answered, Inr ())"
    by code_simp
  have stop: "run_tool_calls ?rt asked broken_calls
        = (append_turn asked geocode_turn, Inl JSONDecodeError)"
    by code_simp
  note inst = tool_turns_in_request_order [where r = requested and rt = ?rt and a = asked
      and sent = "[request_of prompt asked]" and b = asked and tcs = broken_calls
      and b' = "append_turn asked geocode_turn" and e = JSONDecodeError]
  from inst calls good obtain envs a' where round:
    "length envs = length (tool_calls requested)"
    "run_tool_calls ?rt ?b (tool_calls requested) = (a', Inr ())"
    "map tool_call_id (map2 (tool_turn ?rt) (tool_calls requested) envs)
       = map (\<lambda>tc. Some (tc_id tc)) (tool_calls requested)"
    "chat_loop ?rt asked [request_of prompt asked] requested =
      (case submit ?rt a' [request_of prompt asked] of
         (sent', Inl e) \<Rightarrow> Some (a', sent', Inl e)
       | (sent', Inr r') \<Rightarrow> chat_loop ?rt a' sent' r')"
    by blast
  from round(2) evaluated have same: "a' = answered" by simp
  have next_round: "(case submit ?rt answered [request_of prompt asked] of
         (sent', Inl e) \<Rightarrow> Some (answered, sent', Inl e)
       | (sent', Inr r') \<Rightarrow> chat_loop ?rt answered sent' r') =
      Some (append_turn answered (AssistantMessage ''Done.''),
            [request_of prompt asked, request_of prompt answered], Inr ''Done.'')"
    by code_simp
  from round(4) have loop: "chat_loop ?rt asked [request_of prompt asked] requested =
        Some (append_turn answered (AssistantMessage ''Done.''),
              [request_of prompt asked, request_of prompt answered], Inr ''Done.'')"
    unfolding same next_round .
  from inst [THEN conjunct2, THEN mp, OF stop]
  have cut: "\<exists>envs :: envelope list. length envs < length broken_calls
      \<and> dispatch ?rt (broken_calls ! length envs) = Inl JSONDecodeError"
    by blast
  have history: "conversation_history answered =
        conversation_history asked @ [AssistantToolCalls None two_calls, geocode_turn, teleport_turn]"
    by (simp add: answered_def asked_def)
  have ids: "map tool_call_id [geocode_turn, teleport_turn] = map (\<lambda>tc. Some (tc_id tc)) two_calls"
    by (simp add: geocode_turn_def teleport_turn_def two_calls_def)
  from calls d0 d1 evaluated history ids loop stop show ?thesis by simp
qed

text \<open>
  As stated the claim fails: in a round of two requests whose payloads both decode,
  \<^verbatim>\<open>geocode\<close> is asked without its query; \<^verbatim>\<open>chat\<close> raises \<^verbatim>\<open>KeyError\<close> and the
  log holds no tool turn at all.
\<close>

theorem tool_turns_counterexample:
  "chat (sample_runtime (scripted_create keyless_calls)) new_agent ''Where is Paris?'' =
     Some (unanswered, [request_of prompt asked], Inl (KeyError ''query''))
   \<and> length keyless_calls = 2
   \<and> map tool_call_id (conversation_history unanswered) = [None, None]"
  by code_simp

text \<open>
  C3, as amended. A tool request whose payload \<^verbatim>\<open>json.loads\<close> cannot decode ends the
  call of \<^verbatim>\<open>chat\<close> with \<^verbatim>\<open>JSONDecodeError\<close>: when the requests before it have
  been dispatched, the history holds the assistant turn and their tool turns, no tool
  turn is appended for the malformed request or for any request after it, and the model
  is not asked again.
\<close>

theorem malformed_payload_raises:
  "tool_calls r = pre @ tc # post \<and> json_loads rt (tc_arguments tc) = None
     \<and> (\<forall>t \<in> set pre. \<exists>env. dispatch rt t = Inr env) \<longrightarrow>
   (\<exists>envs. length envs = length pre
      \<and> (\<forall>i < length pre. dispatch rt (pre ! i) = Inr (envs ! i))
      \<and> chat_loop rt a sent r =
          Some (a\<lparr>conversation_history :=
                    conversation_history a
                    @ AssistantToolCalls (content r) (tool_calls r)
                      # map2 (tool_turn rt) pre envs\<rparr>,
                sent, Inl JSONDecodeError))"
proof
  assume h: "tool_calls r = pre @ tc # post \<and> json_loads rt (tc_arguments tc) = None
     \<and> (\<forall>t \<in> set pre. \<exists>env. dispatch rt t = Inr env)"
  let ?b = "append_turn a (AssistantToolCalls (content r) (tool_calls r))"
  from h have calls: "tool_calls r = pre @ tc # post" and bad: "json_loads rt (tc_arguments tc) = None"
    and good: "\<forall>t \<in> set pre. \<exists>env. dispatch rt t = Inr env"
    by simp_all
  from run_tool_calls_malformed [OF bad good, of ?b post] obtain envs where envs:
    "length envs = length pre"
    "\<forall>i < length pre. dispatch rt (pre ! i) = Inr (envs ! i)"
    "run_tool_calls rt ?b (pre @ tc # post) =
       (?b\<lparr>conversation_history := conversation_history ?b @ map2 (tool_turn rt) pre envs\<rparr>,
        Inl JSONDecodeError)"
    by blast
  from calls have "tool_calls r \<noteq> []" by simp
  moreover from envs(3) calls have "run_tool_calls rt ?b (tool_calls r) =
       (?b\<lparr>conversation_history := conversation_history ?b @ map2 (tool_turn rt) pre envs\<rparr>,
        Inl JSONDecodeError)"
    by simp
  ultimately have "chat_loop rt a sent r =
      Some (?b\<lparr>conversation_history := conversation_history ?b @ map2 (tool_turn rt) pre envs\<rparr>,
            sent, Inl JSONDecodeError)"
    by (rule chat_loop_abort)
  then have "chat_loop rt a sent r =
          Some (a\<lparr>conversation_history :=
                    conversation_history a
                    @ AssistantToolCalls (content r) (tool_calls r)
                      # map2 (tool_turn rt) pre envs\<rparr>,
                sent, Inl JSONDecodeError)"
    by (simp add: append_turn_def)
  with envs(1) envs(2) show "\<exists>envs. length envs = length pre
      \<and> (\<forall>i < length pre. dispatch rt (pre ! i) = Inr (envs ! i))
      \<and> chat_loop rt a sent r =
          Some (a\<lparr>conversation_history :=
                    conversation_history a
                    @ AssistantToolCalls (content r) (tool_calls r)
                      # map2 (tool_turn rt) pre envs\<rparr>,
                sent, Inl JSONDecodeError)"
    by blast
qed

theorem malformed_payload_raises_witness:
  "tool_calls \<lparr>content = None, tool_calls = broken_calls\<rparr>
     = [broken_calls ! 0] @ broken_calls ! 1 # [broken_calls ! 2]
   \<and> json_loads (sample_runtime failing_create) (tc_arguments (broken_calls ! 1)) = None
   \<and> dispatch (sample_runtime failing_create) (broken_calls ! 0)
       = Inr (Failure ''Geocoding error: offline'')
   \<and> chat_loop (sample_runtime failing_create) asked [request_of prompt asked]
        \<lparr>content = None, tool_calls = broken_calls\<rparr> =
        Some (interrupted, [request_of prompt asked], Inl JSONDecodeError)"
proof -
  let ?rt = "sample_runtime failing_create"
  let ?r = "\<lparr>content = None, tool_calls = broken_calls\<rparr>"
  have split: "tool_calls ?r = [broken_calls ! 0] @ broken_calls ! 1 # [broken_calls ! 2]"
    by (simp add: broken_calls_def)
  have bad: "json_loads ?rt (tc_arguments (broken_calls ! 1)) = None"
    by code_simp
  have first: "dispatch ?rt (broken_calls ! 0) = Inr (Failure ''Geocoding error: offline'')"
    by code_simp
  then have good: "\<forall>t \<in> set [broken_calls ! 0]. \<exists>env. dispatch ?rt t = Inr env"
    by simp
  from malformed_payload_raises [of ?r "[broken_calls ! 0]" "broken_calls ! 1"
      "[broken_calls ! 2]" ?rt asked "[request_of prompt asked]"] split bad good
  obtain envs where envs: "length envs = length [broken_calls ! 0]"
    "\<forall>i < length [broken_calls ! 0]. dispatch ?rt ([broken_calls ! 0] ! i) = Inr (envs ! i)"
    "chat_loop ?rt asked [request_of prompt asked] ?r =
       Some (asked\<lparr>conversation_history :=
                 conversation_history asked
                 @ AssistantToolCalls (content ?r) (tool_calls ?r)
                   # map2 (tool_turn ?rt) [broken_calls ! 0] envs\<rparr>,
             [request_of prompt asked], Inl JSONDecodeError)"
    by blast
  from envs(2) first have "envs ! 0 = Failure ''Geocoding error: offline''" by simp
  with envs(1) have "envs = [Failure ''Geocoding error: offline'']"
    by (cases envs) simp_all
  moreover have "asked\<lparr>conversation_history :=
                 conversation_history asked
                 @ AssistantToolCalls (content ?r) (tool_calls ?r)
                   # map2 (tool_turn ?rt) [broken_calls ! 0]
                       [Failure ''Geocoding error: offline'']\<rparr> = interrupted"
    by code_simp
  ultimately have "chat_loop ?rt asked [request_of prompt asked] ?r =
        Some (interrupted, [request_of prompt asked], Inl JSONDecodeError)"
    using envs(3) by simp
  with split bad first show ?thesis by simp
qed

text \<open>
  As stated the claim fails: the second of three requests has a lone brace as payload,
  and \<^verbatim>\<open>chat\<close> raises after the first tool turn.
\<close>

theorem malformed_payload_counterexample:
  "chat (sample_runtime (scripted_create broken_calls)) new_agent ''Where is Paris?'' =
     Some (interrupted, [request_of prompt asked], Inl JSONDecodeError)
   \<and> map tool_call_id (conversation_history interrupted) = [None, None, Some ''call_1'']"
  by code_simp

text \<open>
  C4, as amended. If the model endpoint raises, \<^verbatim>\<open>chat\<close> ends with that exception
  as its outcome, and the history keeps every turn appended before the failing call: the
  user turn when the first call fails; the assistant turn and the tool turns of the round
  just processed when a later call fails. Nothing is rolled back.
\<close>

theorem endpoint_failure_keeps_turns:
  "(agent_prompt rt = Some p
      \<and> create rt (client a) (request_of p (append_turn a (UserMessage m))) = Inl e \<longrightarrow>
      chat rt a m =
        Some (a\<lparr>conversation_history := conversation_history a @ [UserMessage m]\<rparr>,
              [request_of p (append_turn a (UserMessage m))], Inl e))
   \<and> (tool_calls r \<noteq> []
      \<and> run_tool_calls rt (append_turn a (AssistantToolCalls (content r) (tool_calls r)))
            (tool_calls r) = (a', Inr u)
      \<and> agent_prompt rt = Some p
      \<and> create rt (client a') (request_of p a') = Inl e \<longrightarrow>
      chat_loop rt a sent r = Some (a', sent @ [request_of p a'], Inl e)
      \<and> (\<exists>envs. length envs = length (tool_calls r)
           \<and> conversation_history a' =
               conversation_history a
               @ AssistantToolCalls (content r) (tool_calls r)
                 # map2 (tool_turn rt) (tool_calls r) envs))"
proof (intro conjI impI)
  assume h: "agent_prompt rt = Some p
      \<and> create rt (client a) (request_of p (append_turn a (UserMessage m))) = Inl e"
  then show "chat rt a m =
        Some (a\<lparr>conversation_history := conversation_history a @ [UserMessage m]\<rparr>,
              [request_of p (append_turn a (UserMessage m))], Inl e)"
    by (simp add: chat_def submit_prompt append_turn_def Let_def)
next
  assume h: "tool_calls r \<noteq> []
      \<and> run_tool_calls rt (append_turn a (AssistantToolCalls (content r) (tool_calls r)))
            (tool_calls r) = (a', Inr u)
      \<and> agent_prompt rt = Some p
      \<and> create rt (client a') (request_of p a') = Inl e"
  let ?b = "append_turn a (AssistantToolCalls (content r) (tool_calls r))"
  from h have run: "run_tool_calls rt ?b (tool_calls r) = (a', Inr u)" by simp
  from h have "chat_loop rt a sent r =
          (case submit rt a' sent of
             (sent', Inl e) \<Rightarrow> Some (a', sent', Inl e)
           | (sent', Inr r') \<Rightarrow> chat_loop rt a' sent' r')"
    by (simp add: chat_loop_round)
  with h show "chat_loop rt a sent r = Some (a', sent @ [request_of p a'], Inl e)"
    by (simp add: submit_prompt)
  from run_tool_calls_prefix [OF run] obtain envs where envs:
    "length envs = length (tool_calls r)"
    "a' = ?b\<lparr>conversation_history :=
              conversation_history ?b @ map2 (tool_turn rt) (tool_calls r) envs\<rparr>"
    by auto
  from envs(2) have "conversation_history a' =
               conversation_history a
               @ AssistantToolCalls (content r) (tool_calls r)
                 # map2 (tool_turn rt) (tool_calls r) envs"
    by (simp add: append_turn_def)
  with envs(1) show "\<exists>envs. length envs = length (tool_calls r)
           \<and> conversation_history a' =
               conversation_history a
               @ AssistantToolCalls (content r) (tool_calls r)
                 # map2 (tool_turn rt) (tool_calls r) envs"
    by blast
qed

theorem endpoint_failure_keeps_turns_witness:
  "agent_prompt (sample_runtime failing_create) = Some prompt
   \<and> create (sample_runtime failing_create) (client new_agent)
        (request_of prompt (append_turn new_agent (UserMessage ''Where is Paris?'')))
       = Inl (EndpointError ''401 Unauthorized'')
   \<and> chat (sample_runtime failing_create) new_agent ''Where is Paris?'' =
       Some (asked, [request_of prompt asked], Inl (EndpointError ''401 Unauthorized''))
   \<and> tool_calls requested \<noteq> []
   \<and> run_tool_calls (sample_runtime failing_later)
        (append_turn asked (AssistantToolCalls (content requested) (tool_calls requested)))
        (tool_calls requested) = (answered, Inr ())
   \<and> create (sample_runtime failing_later) (client answered) (request_of prompt answered)
       = Inl (EndpointError ''429 Too Many Requests'')
   \<and> chat_loop (sample_runtime failing_later) asked [request_of prompt asked] requested =
       Some (answered, [request_of prompt asked, request_of prompt answered],
             Inl (EndpointError ''429 Too Many Requests''))"
proof -
  let ?rt = "sample_runtime failing_create"
  let ?rt2 = "sample_runtime failing_later"
  have p: "agent_prompt ?rt = Some prompt" "agent_prompt ?rt2 = Some prompt"
    by (simp_all add: sample_runtime_def prompt_def)
  have fail: "create ?rt (client new_agent)
        (request_of prompt (append_turn new_agent (UserMessage ''Where is Paris?'')))
       = Inl (EndpointError ''401 Unauthorized'')"
    by (simp add: sample_runtime_def failing_create_def)
  have user: "append_turn new_agent (UserMessage ''Where is Paris?'') = asked"
    by (simp add: append_turn_def asked_def new_agent_def)
  have calls: "tool_calls requested \<noteq> []"
    by (simp add: requested_def two_calls_def)
  have run: "run_tool_calls ?rt2
        (append_turn asked (AssistantToolCalls (content requested) (tool_calls requested)))
        (tool_calls requested) = (answered, Inr ())"
    by code_simp
  have later: "create ?rt2 (client answered) (request_of prompt answered)
       = Inl (EndpointError ''429 Too Many Requests'')"
    by code_simp
  from endpoint_failure_keeps_turns [of ?rt prompt new_agent "''Where is Paris?''"
      "EndpointError ''401 Unauthorized''"] p(1) fail
  have one: "chat ?rt new_agent ''Where is Paris?'' =
       Some (new_agent\<lparr>conversation_history :=
                 conversation_history new_agent @ [UserMessage ''Where is Paris?'']\<rparr>,
             [request_of prompt (append_turn new_agent (UserMessage ''Where is Paris?''))],
             Inl (EndpointError ''401 Unauthorized''))"
    by blast
  then have first: "chat ?rt new_agent ''Where is Paris?'' =
       Some (asked, [request_of prompt asked], Inl (EndpointError ''401 Unauthorized''))"
    unfolding user by (simp add: asked_def new_agent_def)
  from endpoint_failure_keeps_turns [of ?rt2 prompt asked _ "EndpointError ''429 Too Many Requests''"
      requested answered "()" "[request_of prompt asked]"]
    calls run p(2) later
  have second: "chat_loop ?rt2 asked [request_of prompt asked] requested =
       Some (answered, [request_of prompt asked] @ [request_of prompt answered],
             Inl (EndpointError ''429 Too Many Requests''))"
    by blast
  from p(1) fail first calls run later second show ?thesis by simp
qed

text \<open>
  As stated the claim fails: after the failed first call the history holds the user turn,
  and it was empty before.
\<close>

theorem endpoint_failure_counterexample:
  "chat (sample_runtime failing_create) new_agent ''Where is Paris?'' =
     Some (asked, [request_of prompt asked], Inl (EndpointError ''401 Unauthorized''))
   \<and> conversation_history asked = [UserMessage ''Where is Paris?'']
   \<and> conversation_history new_agent = []"
  by code_simp

text \<open>
  C5. If the first reply of the model carries no tool request, \<^verbatim>\<open>chat\<close> returns
  after that one round: one request has been submitted, the history has gained the user
  turn and exactly one assistant turn, and the result is the content of the reply, or the
  fixed apology when the content is absent or empty.
\<close>

theorem no_tool_requests_one_round:
  "agent_prompt rt = Some p
     \<and> create rt (client a) (request_of p (append_turn a (UserMessage m))) = Inr r
     \<and> tool_calls r = [] \<longrightarrow>
   chat rt a m =
     Some (a\<lparr>conversation_history :=
               conversation_history a @ [UserMessage m, AssistantMessage (final_text r)]\<rparr>,
           [request_of p (append_turn a (UserMessage m))], Inr (final_text r))
   \<and> (\<forall>c. content r = Some c \<and> c \<noteq> [] \<longrightarrow> final_text r = c)
   \<and> (content r = None \<or> content r = Some [] \<longrightarrow>
        final_text r = ''I apologize, but I couldn'' @ [CHR 0x27] @ ''t generate a response.'')"
  by (simp add: chat_def submit_prompt chat_loop_final append_turn_def final_text_def
        fallback_def Let_def del: append.simps)

theorem no_tool_requests_one_round_witness:
  "agent_prompt (sample_runtime plain_create) = Some prompt
   \<and> create (sample_runtime plain_create) (client new_agent)
        (request_of prompt (append_turn new_agent (UserMessage ''Where is Paris?'')))
       = Inr \<lparr>content = Some ''Paris is in France.'', tool_calls = []\<rparr>
   \<and> chat (sample_runtime plain_create) new_agent ''Where is Paris?'' =
       Some (append_turn asked (AssistantMessage ''Paris is in France.''),
             [request_of prompt asked], Inr ''Paris is in France.'')
   \<and> create (sample_runtime (scripted_create [])) (client new_agent)
        (request_of prompt (append_turn new_agent (UserMessage ''Where is Paris?'')))
       = Inr \<lparr>content = None, tool_calls = []\<rparr>
   \<and> chat (sample_runtime (scripted_create [])) new_agent ''Where is Paris?'' =
       Some (append_turn asked (AssistantMessage fallback), [request_of prompt asked],
             Inr fallback)"
proof -
  let ?rt = "sample_runtime plain_create"
  let ?rt2 = "sample_runtime (scripted_create [])"
  let ?r = "\<lparr>content = Some ''Paris is in France.'', tool_calls = []\<rparr>"
  let ?r2 = "\<lparr>content = None, tool_calls = []\<rparr> :: reply"
  have p: "agent_prompt ?rt = Some prompt" "agent_prompt ?rt2 = Some prompt"
    by (simp_all add: sample_runtime_def prompt_def)
  have user: "append_turn new_agent (UserMessage ''Where is Paris?'') = asked"
    by (simp add: append_turn_def asked_def new_agent_def)
  have r: "create ?rt (client new_agent)
        (request_of prompt (append_turn new_agent (UserMessage ''Where is Paris?''))) = Inr ?r"
    by (simp add: sample_runtime_def plain_create_def)
  have r2: "create ?rt2 (client new_agent)
        (request_of prompt (append_turn new_agent (UserMessage ''Where is Paris?''))) = Inr ?r2"
    by code_simp
  from no_tool_requests_one_round [of ?rt prompt new_agent "''Where is Paris?''" ?r] p(1) r
  have "chat ?rt new_agent ''Where is Paris?'' =
     Some (new_agent\<lparr>conversation_history :=
               conversation_history new_agent
               @ [UserMessage ''Where is Paris?'', AssistantMessage (final_text ?r)]\<rparr>,
           [request_of prompt (append_turn new_agent (UserMessage ''Where is Paris?''))],
           Inr (final_text ?r))"
    and "final_text ?r = ''Paris is in France.''"
    by simp_all
  then have one: "chat ?rt new_agent ''Where is Paris?'' =
       Some (append_turn asked (AssistantMessage ''Paris is in France.''),
             [request_of prompt asked], Inr ''Paris is in France.'')"
    unfolding user by (simp add: append_turn_def asked_def new_agent_def)
  from no_tool_requests_one_round [of ?rt2 prompt new_agent "''Where is Paris?''" ?r2] p(2) r2
  have "chat ?rt2 new_agent ''Where is Paris?'' =
     Some (new_agent\<lparr>conversation_history :=
               conversation_history new_agent
               @ [UserMessage ''Where is Paris?'', AssistantMessage (final_text ?r2)]\<rparr>,
           [request_of prompt (append_turn new_agent (UserMessage ''Where is Paris?''))],
           Inr (final_text ?r2))"
    and "final_text ?r2 = fallback"
    by (simp_all add: fallback_def)
  then have two: "chat ?rt2 new_agent ''Where is Paris?'' =
       Some (append_turn asked (AssistantMessage fallback), [request_of prompt asked],
             Inr fallback)"
    unfolding user by (simp add: append_turn_def asked_def new_agent_def)
  from p(1) r one r2 two show ?thesis by simp
qed

text \<open>
  C7. \<^verbatim>\<open>reset_conversation\<close> empties the history and leaves the client, the model
  name and the verbose flag as they were; the messages built after it hold the system
  prompt only, and the next request carries the same model name and the catalog
  \<^verbatim>\<open>TOOLS\<close>, with the system prompt and the new user turn as its only messages.
\<close>

theorem reset_conversation_clears_history:
  "conversation_history (reset_conversation a) = []
   \<and> client (reset_conversation a) = client a
   \<and> model (reset_conversation a) = model a
   \<and> verbose (reset_conversation a) = verbose a
   \<and> messages p (reset_conversation a) = [SystemMessage p]
   \<and> (agent_prompt rt = Some p \<longrightarrow>
        fst (submit rt (append_turn (reset_conversation a) (UserMessage m)) []) =
          [\<lparr>req_model = model a, req_messages = [SystemMessage p, UserMessage m],
            req_tools = TOOLS, req_tool_choice = ''auto''\<rparr>])"
proof (intro conjI impI)
  show "conversation_history (reset_conversation a) = []"
    by (simp add: reset_conversation_def)
  then show "messages p (reset_conversation a) = [SystemMessage p]"
    by (simp add: messages_def)
  show "client (reset_conversation a) = client a" "model (reset_conversation a) = model a"
    "verbose (reset_conversation a) = verbose a"
    by (simp_all add: reset_conversation_def)
next
  assume "agent_prompt rt = Some p"
  then have "fst (submit rt (append_turn (reset_conversation a) (UserMessage m)) []) =
      [request_of p (append_turn (reset_conversation a) (UserMessage m))]"
    by (simp add: submit_prompt)
  then show "fst (submit rt (append_turn (reset_conversation a) (UserMessage m)) []) =
          [\<lparr>req_model = model a, req_messages = [SystemMessage p, UserMessage m],
            req_tools = TOOLS, req_tool_choice = ''auto''\<rparr>]"
    by (simp add: request_of_def append_turn_def reset_conversation_def)
qed

theorem reset_conversation_clears_history_witness:
  "conversation_history answered \<noteq> []
   \<and> conversation_history (reset_conversation answered) = []
   \<and> reset_conversation answered = new_agent
   \<and> agent_prompt (sample_runtime plain_create) = Some prompt
   \<and> fst (submit (sample_runtime plain_create)
             (append_turn (reset_conversation answered) (UserMessage ''Hello'')) []) =
        [\<lparr>req_model = Some ''gpt-4o'', req_messages = [SystemMessage prompt, UserMessage ''Hello''],
          req_tools = TOOLS, req_tool_choice = ''auto''\<rparr>]"
proof -
  have p: "agent_prompt (sample_runtime plain_create) = Some prompt"
    by (simp add: sample_runtime_def prompt_def)
  have before: "conversation_history answered \<noteq> []"
    by (simp add: answered_def)
  have m: "model answered = Some ''gpt-4o''"
    by (simp add: answered_def new_agent_def)
  from reset_conversation_clears_history [of answered prompt "sample_runtime plain_create"
      "''Hello''"] p m
  have cleared: "conversation_history (reset_conversation answered) = []"
    and sent: "fst (submit (sample_runtime plain_create)
             (append_turn (reset_conversation answered) (UserMessage ''Hello'')) []) =
        [\<lparr>req_model = Some ''gpt-4o'', req_messages = [SystemMessage prompt, UserMessage ''Hello''],
          req_tools = TOOLS, req_tool_choice = ''auto''\<rparr>]"
    by simp_all
  have same: "reset_conversation answered = new_agent"
    by (simp add: reset_conversation_def answered_def new_agent_def)
  from before cleared same p sent show ?thesis by simp
qed

end
